theory Spec2Isabelle
  imports Complex_Main
begin

section \<open>JavaScript values\<close>

text \<open>
  The handlers of the complaint and meeting service read the members of a parsed JSON
  body, test them with \<^verbatim>\<open>!x\<close>, compare them with \<^verbatim>\<open>includes\<close> and \<^verbatim>\<open>===\<close>,
  and answer with a JSON envelope. A value is therefore one of the JSON shapes, with
  \<^verbatim>\<open>undefined\<close> for a member that is absent. Numbers in a body are integers here;
  fractions do not occur in any check of the handlers.
\<close>

datatype jsval =
    JUndefined
  | JNull
  | JBool bool
  | JNum int
  | JStr string
  | JArr "jsval list"
  | JObj "(string \<times> jsval) list"

text \<open>\<^verbatim>\<open>!v\<close> is \<open>\<not> truthy v\<close>: the falsy values are undefined, null, false, 0 and the empty string.\<close>

fun truthy :: "jsval \<Rightarrow> bool" where
  "truthy JUndefined = False"
| "truthy JNull = False"
| "truthy (JBool b) = b"
| "truthy (JNum n) = (n \<noteq> 0)"
| "truthy (JStr s) = (s \<noteq> [])"
| "truthy (JArr xs) = True"
| "truthy (JObj kvs) = True"

text \<open>A destructuring default \<^verbatim>\<open>{ x = d } = obj\<close> replaces undefined only.\<close>

definition with_default :: "jsval \<Rightarrow> jsval \<Rightarrow> jsval" where
  "with_default v d = (if v = JUndefined then d else v)"

text \<open>\<^verbatim>\<open>list.includes(v)\<close> on a list of string literals: strict equality with one of them.\<close>

definition js_includes :: "string list \<Rightarrow> jsval \<Rightarrow> bool" where
  "js_includes xs v = (case v of JStr s \<Rightarrow> s \<in> set xs | _ \<Rightarrow> False)"

text \<open>\<^verbatim>\<open>xs.join(sep)\<close>.\<close>

fun js_join :: "string \<Rightarrow> string list \<Rightarrow> string" where
  "js_join sep [] = []"
| "js_join sep [x] = x"
| "js_join sep (x # y # ys) = x @ sep @ js_join sep (y # ys)"

text \<open>Reading a member of an object: an absent member, or a member of a non-object, is undefined.\<close>

definition get_member :: "jsval \<Rightarrow> string \<Rightarrow> jsval" where
  "get_member v k =
     (case v of
        JObj kvs \<Rightarrow> (case map_of kvs k of Some x \<Rightarrow> x | None \<Rightarrow> JUndefined)
      | _ \<Rightarrow> JUndefined)"

subsection \<open>Conversion to string\<close>

definition digit_char :: "nat \<Rightarrow> char" where
  "digit_char n = ''0123456789'' ! (n mod 10)"

fun dec_digits :: "nat \<Rightarrow> string" where
  "dec_digits n =
     (if n < 10 then [digit_char n] else dec_digits (n div 10) @ [digit_char (n mod 10)])"

declare dec_digits.simps [simp del]

definition int_to_string :: "int \<Rightarrow> string" where
  "int_to_string n = (if n < 0 then CHR ''-'' # dec_digits (nat (- n)) else dec_digits (nat n))"

text \<open>
  \<^verbatim>\<open>String(v)\<close>, which \<^verbatim>\<open>RegExp.prototype.test\<close> and \<^verbatim>\<open>new Date\<close> apply to
  their argument; \<open>None\<close> is the TypeError it throws. An integer prints in decimal
  digits (as JavaScript does below \<open>10^21\<close>). A plain object gives
  \<^verbatim>\<open>[object Object]\<close> through the inherited \<^verbatim>\<open>toString\<close>; an object with a member
  \<^verbatim>\<open>toString\<close> of its own has no string, since a member parsed from JSON is never
  callable and \<^verbatim>\<open>valueOf\<close> gives no primitive value either. An array joins the strings
  of its elements with commas, null and undefined elements giving the empty string,
  and throws when one of its elements does.
\<close>

fun to_string :: "jsval \<Rightarrow> string option" where
  "to_string JUndefined = Some ''undefined''"
| "to_string JNull = Some ''null''"
| "to_string (JBool b) = Some (if b then ''true'' else ''false'')"
| "to_string (JNum n) = Some (int_to_string n)"
| "to_string (JStr s) = Some s"
| "to_string (JArr xs) =
     map_option (js_join '','')
       (those (map (\<lambda>x. if x = JNull \<or> x = JUndefined then Some [] else to_string x) xs))"
| "to_string (JObj kvs) =
     (if ''toString'' \<in> set (map fst kvs) then None else Some ''[object Object]'')"

text \<open>The text of a value that a list of string literals includes.\<close>

definition string_of :: "jsval \<Rightarrow> string" where
  "string_of v = (case v of JStr x \<Rightarrow> x | _ \<Rightarrow> [])"

subsection \<open>Numbers\<close>

text \<open>
  The numbers the listing handlers compute are integers, the two zeros, the two
  infinities and NaN: \<^verbatim>\<open>parseInt\<close> gives an integer, \<^verbatim>\<open>-0\<close> or NaN, and the only
  division is rounded up at once by \<^verbatim>\<open>Math.ceil\<close>. \<open>Fin 0\<close> is \<^verbatim>\<open>+0\<close>. Integers are
  exact, as doubles are below \<open>2^53\<close>.
\<close>

datatype jsnum = NaN | PosInf | NegInf | NegZero | Fin int

fun js_int :: "jsnum \<Rightarrow> int" where
  "js_int (Fin n) = n"
| "js_int x = 0"

text \<open>\<^verbatim>\<open>a < b\<close> on numbers: false as soon as one side is NaN; the two zeros are equal.\<close>

fun js_lt :: "jsnum \<Rightarrow> jsnum \<Rightarrow> bool" where
  "js_lt NaN b = False"
| "js_lt a NaN = False"
| "js_lt PosInf b = False"
| "js_lt a PosInf = True"
| "js_lt a NegInf = False"
| "js_lt NegInf b = True"
| "js_lt a b = (js_int a < js_int b)"

text \<open>\<^verbatim>\<open>x - 1\<close>.\<close>

fun js_minus1 :: "jsnum \<Rightarrow> jsnum" where
  "js_minus1 NaN = NaN"
| "js_minus1 PosInf = PosInf"
| "js_minus1 NegInf = NegInf"
| "js_minus1 NegZero = Fin (- 1)"
| "js_minus1 (Fin n) = Fin (n - 1)"

fun js_negative :: "jsnum \<Rightarrow> bool" where
  "js_negative NegInf = True"
| "js_negative NegZero = True"
| "js_negative (Fin n) = (n < 0)"
| "js_negative x = False"

fun js_is_zero :: "jsnum \<Rightarrow> bool" where
  "js_is_zero NegZero = True"
| "js_is_zero (Fin n) = (n = 0)"
| "js_is_zero x = False"

fun js_is_inf :: "jsnum \<Rightarrow> bool" where
  "js_is_inf PosInf = True"
| "js_is_inf NegInf = True"
| "js_is_inf x = False"

text \<open>\<^verbatim>\<open>a * b\<close>: the sign of a zero or infinite product is the exclusive or of the signs.\<close>

definition js_mul :: "jsnum \<Rightarrow> jsnum \<Rightarrow> jsnum" where
  "js_mul a b =
     (if a = NaN \<or> b = NaN then NaN
      else if js_is_inf a \<or> js_is_inf b then
        (if js_is_zero a \<or> js_is_zero b then NaN
         else if js_negative a \<noteq> js_negative b then NegInf else PosInf)
      else if js_int a * js_int b = 0 then
        (if js_negative a \<noteq> js_negative b then NegZero else Fin 0)
      else Fin (js_int a * js_int b))"

text \<open>
  \<^verbatim>\<open>Math.ceil(total / d)\<close> for a row count \<open>n\<close>. Division by a zero gives an infinity
  of the divisor's sign, or NaN when the count is zero too; a quotient in \<open>(-1, 0]\<close> with
  a negative divisor rounds up to \<^verbatim>\<open>-0\<close>.
\<close>

fun ceil_quotient :: "nat \<Rightarrow> jsnum \<Rightarrow> jsnum" where
  "ceil_quotient n NaN = NaN"
| "ceil_quotient n PosInf = Fin 0"
| "ceil_quotient n NegInf = NegZero"
| "ceil_quotient n NegZero = (if n = 0 then NaN else NegInf)"
| "ceil_quotient n (Fin d) =
     (if d = 0 then (if n = 0 then NaN else PosInf)
      else if d < 0 \<and> \<lceil>real n / real_of_int d\<rceil> = 0 then NegZero
      else Fin \<lceil>real n / real_of_int d\<rceil>)"

text \<open>\<^verbatim>\<open>JSON.stringify\<close> writes NaN and the infinities as null, and \<^verbatim>\<open>-0\<close> as 0.\<close>

fun json_num :: "jsnum \<Rightarrow> jsval" where
  "json_num (Fin n) = JNum n"
| "json_num NegZero = JNum 0"
| "json_num x = JNull"

subsection \<open>\<^verbatim>\<open>parseInt\<close>\<close>

text \<open>
  \<^verbatim>\<open>parseInt(s)\<close> skips leading white space, reads a sign, takes radix 16 after a
  \<^verbatim>\<open>0x\<close> prefix and radix 10 otherwise, and reads the longest run of digits; no digit
  gives NaN. White space is the ASCII white space here.
\<close>

definition is_space :: "char \<Rightarrow> bool" where
  "is_space c = (c \<in> set [CHR '' '', CHR 0x09, CHR 0x0A, CHR 0x0B, CHR 0x0C, CHR 0x0D])"

definition dec_digit :: "char \<Rightarrow> nat option" where
  "dec_digit c = map_of (zip ''0123456789'' [0, 1, 2, 3, 4, 5, 6, 7, 8, 9]) c"

definition hex_digit :: "char \<Rightarrow> nat option" where
  "hex_digit c =
     map_of (zip ''0123456789abcdefABCDEF''
       [0, 1, 2, 3, 4, 5, 6, 7, 8, 9, 10, 11, 12, 13, 14, 15, 10, 11, 12, 13, 14, 15]) c"

fun read_digits :: "nat \<Rightarrow> (char \<Rightarrow> nat option) \<Rightarrow> string \<Rightarrow> nat option \<Rightarrow> nat option" where
  "read_digits radix dv [] acc = acc"
| "read_digits radix dv (c # cs) acc =
     (case dv c of
        None \<Rightarrow> acc
      | Some d \<Rightarrow>
          read_digits radix dv cs (Some (radix * (case acc of None \<Rightarrow> 0 | Some a \<Rightarrow> a) + d)))"

definition strip_sign :: "string \<Rightarrow> bool \<times> string" where
  "strip_sign s =
     (case s of
        c # cs \<Rightarrow>
          (if c = CHR ''-'' then (True, cs) else if c = CHR ''+'' then (False, cs) else (False, s))
      | [] \<Rightarrow> (False, s))"

definition parseInt :: "string \<Rightarrow> jsnum" where
  "parseInt s =
     (let (neg, r) = strip_sign (dropWhile is_space s);
          magnitude =
            (if take 2 r = ''0x'' \<or> take 2 r = ''0X''
             then read_digits 16 hex_digit (drop 2 r) None
             else read_digits 10 dec_digit r None)
      in case magnitude of
           None \<Rightarrow> NaN
         | Some v \<Rightarrow> if neg then (if v = 0 then NegZero else Fin (- int v)) else Fin (int v))"

text \<open>
  \<^verbatim>\<open>const { page = 1 } = req.query; parseInt(page)\<close>: a parameter that is absent takes
  the numeric default, which \<^verbatim>\<open>parseInt\<close> returns as it is.
\<close>

definition parseInt_param :: "string option \<Rightarrow> int \<Rightarrow> jsnum" where
  "parseInt_param p d = (case p of None \<Rightarrow> Fin d | Some s \<Rightarrow> parseInt s)"

section \<open>The relational store\<close>

text \<open>
  The tables the handlers read and write. A user row holds text columns. A complaint or
  meeting row keeps, for each column a handler fills from the request, the parameter as
  it was bound to the statement; the server's conversion to the column type is not part
  of the model. Identifiers are assigned by the table's counter.
\<close>

record user =
  u_computer_number :: string
  u_role :: string
  u_first_name :: string
  u_last_name :: string
  u_email :: string
  u_phone :: string
  u_password_hash :: string

record complaint =
  c_complaint_id :: nat
  c_computer_number :: jsval
  c_title :: jsval
  c_description :: jsval
  c_category :: jsval
  c_priority :: jsval
  c_contact_phone :: jsval
  c_contact_email :: jsval
  c_anonymous :: bool
  c_status :: jsval
  c_admin_response :: jsval
  c_admin_notes :: jsval
  c_created_at :: int
  c_updated_at :: "int option"
  c_resolved_at :: "int option"

record meeting =
  m_meeting_id :: nat
  m_title :: jsval
  m_description :: jsval
  m_organizer_computer_number :: string
  m_participant_computer_number :: string
  m_scheduled_at :: jsval
  m_status :: jsval

record store =
  users :: "user list"
  complaints :: "complaint list"
  meetings :: "meeting list"
  next_complaint_id :: nat
  next_meeting_id :: nat

text \<open>
  What the handlers take from outside the repository:
  \<^item> \<open>jwt_sign payload lifetime\<close> is \<^verbatim>\<open>jwt.sign(payload, secret, { expiresIn })\<close>,
    \<open>None\<close> when it throws, as it does when no secret is configured or the lifetime is
    no time span, and \<open>jwt_verify token\<close> is the outcome of \<^verbatim>\<open>jwt.verify(token, secret)\<close> at the time
    of the request: the decoded payload, or the name of the error it throws;
  \<^item> \<open>JWT_EXPIRES_IN\<close> is the variable of that name in the process environment;
  \<^item> \<open>bcrypt_compare password hash\<close> is \<^verbatim>\<open>bcrypt.compare\<close>;
  \<^item> \<open>date_parse\<close> is the host's parser of date strings (\<open>None\<close> for an invalid
    date) and \<open>now\<close> its clock, both in milliseconds;
  \<^item> \<open>sql_like pattern text\<close> is the server's \<^verbatim>\<open>LIKE\<close> under the column's collation;
  \<^item> \<open>db_fault\<close> is the error with which a statement sent to the pool fails, if it
    does; it is the same for all statements of one request.
\<close>

datatype db_error = ER_NO_SUCH_TABLE | ER_BAD_FIELD_ERROR | ER_OTHER

record token_claims =
  t_computer_number :: string
  t_role :: string
  t_email :: string

datatype verify_result =
    Decoded token_claims
  | JsonWebTokenError
  | TokenExpiredError
  | NotBeforeError

record env =
  jwt_sign :: "token_claims \<Rightarrow> string \<Rightarrow> string option"
  jwt_verify :: "string \<Rightarrow> verify_result"
  JWT_EXPIRES_IN :: "string option"
  bcrypt_compare :: "string \<Rightarrow> string \<Rightarrow> bool"
  date_parse :: "string \<Rightarrow> int option"
  now :: int
  sql_like :: "string \<Rightarrow> string \<Rightarrow> bool"
  db_fault :: "db_error option"

section \<open>Requests and responses\<close>

text \<open>
  A request carries the Authorization header, the parsed JSON body (a member that is
  absent reads as undefined) and the query string, whose parameters are strings. The
  parameter of a route such as \<^verbatim>\<open>/:id\<close> is an argument of the handler. A response is
  a status code and a JSON object.
\<close>

record request =
  req_authorization :: "string option"
  req_body :: "string \<Rightarrow> jsval"
  req_query :: "string \<Rightarrow> string option"

record response =
  status_code :: nat
  payload :: jsval

definition respond :: "nat \<Rightarrow> (string \<times> jsval) list \<Rightarrow> response" where
  "respond code members = \<lparr>status_code = code, payload = JObj members\<rparr>"

text \<open>The failure envelope \<^verbatim>\<open>{ success: false, message }\<close> with further members.\<close>

definition failure :: "nat \<Rightarrow> string \<Rightarrow> (string \<times> jsval) list \<Rightarrow> response" where
  "failure code msg extra =
     respond code ([(''success'', JBool False), (''message'', JStr msg)] @ extra)"

section \<open>Complaint routes\<close>

definition validCategories :: "string list" where
  "validCategories =
     [''academics'', ''facilities'', ''accommodation'', ''finances'', ''missing_results'',
      ''registration'', ''transport'', ''library'', ''cafeteria'', ''health_services'',
      ''harassment'', ''administrative'', ''internet_network'', ''disciplinary'',
      ''sports_recreation'', ''other'']"

definition validPriorities :: "string list" where
  "validPriorities = [''low'', ''medium'', ''high'', ''urgent'']"

definition is_digit :: "char \<Rightarrow> bool" where
  "is_digit c = (c \<in> set ''0123456789'')"

text \<open>
  \<^verbatim>\<open>/^\d{4}\d{6}$/.test(v)\<close>: whether the string of \<open>v\<close> is exactly ten decimal
  digits; \<open>None\<close> when \<open>v\<close> has no string and the test throws.
\<close>

definition computerNumberRegex_test :: "jsval \<Rightarrow> bool option" where
  "computerNumberRegex_test v =
     map_option (\<lambda>x. length x = 10 \<and> list_all is_digit x) (to_string v)"

text \<open>\<^verbatim>\<open>x || null\<close>.\<close>

definition or_null :: "jsval \<Rightarrow> jsval" where
  "or_null v = (if truthy v then v else JNull)"

text \<open>
  The \<^verbatim>\<open>catch\<close> block of \<^verbatim>\<open>POST /complaints\<close>: an error without one of the two
  codes, a TypeError among them, gets the last answer.
\<close>

definition post_complaint_internal_error :: response where
  "post_complaint_internal_error =
     failure 500 ''Failed to submit complaint. Please try again.''
       [(''error_code'', JStr ''INTERNAL_ERROR'')]"

definition post_complaint_failed :: "db_error \<Rightarrow> response" where
  "post_complaint_failed err =
     (if err = ER_NO_SUCH_TABLE then
        failure 500 ''Database table not found. Please contact administrator.''
          [(''error_code'', JStr ''TABLE_NOT_FOUND'')]
      else if err = ER_BAD_FIELD_ERROR then
        failure 500 ''Database schema error. Please contact administrator.''
          [(''error_code'', JStr ''SCHEMA_ERROR'')]
      else post_complaint_internal_error)"

text \<open>
  \<^verbatim>\<open>POST /complaints\<close>. The checks come in the order of the source: required members,
  category, priority, the submitter of a complaint that is not anonymous and the format
  of that submitter, whose test throws into the \<^verbatim>\<open>catch\<close> block when the submitter
  has no string; then the row is inserted with status pending. The
  \<^verbatim>\<open>created_at\<close> member of the answer (an ISO rendering of the clock) is left out.
\<close>

definition post_complaint :: "env \<Rightarrow> store \<Rightarrow> request \<Rightarrow> response \<times> store" where
  "post_complaint e s req =
     (let computer_number = req_body req ''computer_number'';
          title = req_body req ''title'';
          description = req_body req ''description'';
          category = req_body req ''category'';
          priority = with_default (req_body req ''priority'') (JStr ''medium'');
          contact_phone = req_body req ''contact_phone'';
          contact_email = req_body req ''contact_email'';
          anonymous = with_default (req_body req ''anonymous'') (JBool False)
      in
      if \<not> truthy title \<or> \<not> truthy description \<or> \<not> truthy category then
        (failure 400 ''Title, description, and category are required''
           [(''errors'', JObj
               [(''title'', if \<not> truthy title then JStr ''Title is required'' else JNull),
                (''description'',
                   if \<not> truthy description then JStr ''Description is required'' else JNull),
                (''category'',
                   if \<not> truthy category then JStr ''Category is required'' else JNull)])],
         s)
      else if \<not> js_includes validCategories category then
        (failure 400 ''Invalid category provided''
           [(''valid_categories'', JArr (map JStr validCategories))], s)
      else if \<not> js_includes validPriorities priority then
        (failure 400 ''Invalid priority provided''
           [(''valid_priorities'', JArr (map JStr validPriorities))], s)
      else if \<not> truthy anonymous \<and> \<not> truthy computer_number then
        (failure 400 ''Computer number is required for non-anonymous complaints'' [], s)
      else if \<not> truthy anonymous \<and> truthy computer_number
                \<and> computerNumberRegex_test computer_number = None then
        (post_complaint_internal_error, s)
      else if \<not> truthy anonymous \<and> truthy computer_number
                \<and> computerNumberRegex_test computer_number = Some False then
        (failure 400
           ''Invalid computer number format. Expected format: YYYYNNNNNN (e.g., 2019123456)''
           [], s)
      else
        (case db_fault e of
           Some err \<Rightarrow> (post_complaint_failed err, s)
         | None \<Rightarrow>
             (respond 201
                [(''success'', JBool True),
                 (''message'', JStr ''Complaint submitted successfully''),
                 (''data'', JObj
                    [(''complaint_id'', JNum (int (next_complaint_id s))),
                     (''title'', title),
                     (''category'', category),
                     (''status'', JStr ''pending''),
                     (''anonymous'', anonymous)])],
              s\<lparr>complaints := complaints s @
                   [\<lparr>c_complaint_id = next_complaint_id s,
                     c_computer_number = (if truthy anonymous then JNull else computer_number),
                     c_title = title,
                     c_description = description,
                     c_category = category,
                     c_priority = priority,
                     c_contact_phone = or_null contact_phone,
                     c_contact_email = or_null contact_email,
                     c_anonymous = truthy anonymous,
                     c_status = JStr ''pending'',
                     c_admin_response = JNull,
                     c_admin_notes = JNull,
                     c_created_at = now e,
                     c_updated_at = None,
                     c_resolved_at = None\<rparr>],
                 next_complaint_id := Suc (next_complaint_id s)\<rparr>)))"

subsection \<open>Listing, reading and updating complaints\<close>

text \<open>
  A predicate \<^verbatim>\<open>column = ?\<close> is appended to the \<^verbatim>\<open>WHERE\<close> clause when the query
  parameter is truthy, that is present and not the empty string. A column equals a text
  parameter when it holds that string; the folding of case and trailing blanks that a
  collation may add is not modelled.
\<close>

definition column_filter :: "string option \<Rightarrow> jsval \<Rightarrow> bool" where
  "column_filter p v = (case p of None \<Rightarrow> True | Some x \<Rightarrow> if x = [] then True else v = JStr x)"

definition complaint_matches ::
  "string option \<Rightarrow> string option \<Rightarrow> string option \<Rightarrow> string option \<Rightarrow> complaint \<Rightarrow> bool" where
  "complaint_matches status category priority computer_number c =
     (column_filter status (c_status c) \<and> column_filter category (c_category c)
      \<and> column_filter priority (c_priority c)
      \<and> column_filter computer_number (c_computer_number c))"

text \<open>\<^verbatim>\<open>SELECT COUNT(*) as total FROM complaints WHERE ...\<close>.\<close>

definition count_complaints :: "store \<Rightarrow> request \<Rightarrow> nat" where
  "count_complaints s req =
     length (filter (complaint_matches (req_query req ''status'') (req_query req ''category'')
       (req_query req ''priority'') (req_query req ''computer_number'')) (complaints s))"

text \<open>
  \<^verbatim>\<open>LIMIT ? OFFSET ?\<close> and \<^verbatim>\<open>id = ?\<close> receive the number as it prints. The server
  takes a non-negative integer after \<^verbatim>\<open>LIMIT\<close> and \<^verbatim>\<open>OFFSET\<close> (\<^verbatim>\<open>-0\<close> prints as
  0) and rejects the statement otherwise; NaN and the infinities print as names the
  server does not know.
\<close>

definition sql_row_count_ok :: "jsnum \<Rightarrow> bool" where
  "sql_row_count_ok x = (case x of Fin n \<Rightarrow> 0 \<le> n | NegZero \<Rightarrow> True | _ \<Rightarrow> False)"

definition sql_number_ok :: "jsnum \<Rightarrow> bool" where
  "sql_number_ok x = (case x of Fin n \<Rightarrow> True | NegZero \<Rightarrow> True | _ \<Rightarrow> False)"

definition id_is :: "nat \<Rightarrow> jsnum \<Rightarrow> bool" where
  "id_is k x = (case x of Fin n \<Rightarrow> int k = n | NegZero \<Rightarrow> k = 0 | _ \<Rightarrow> False)"

text \<open>The members of \<^verbatim>\<open>filters\<close>: \<^verbatim>\<open>JSON.stringify\<close> drops those that are undefined.\<close>

definition defined_members :: "(string \<times> string option) list \<Rightarrow> (string \<times> jsval) list" where
  "defined_members kvs =
     concat (map (\<lambda>(k, v). case v of None \<Rightarrow> [] | Some x \<Rightarrow> [(k, JStr x)]) kvs)"

text \<open>
  \<^verbatim>\<open>GET /complaints\<close>. The count query runs first, then the page query; the rows of
  the page (the \<^verbatim>\<open>data\<close> member) and their order are left out, so the sort parameters
  have no part here.
\<close>

definition list_complaints :: "env \<Rightarrow> store \<Rightarrow> request \<Rightarrow> response \<times> store" where
  "list_complaints e s req =
     (let page = parseInt_param (req_query req ''page'') 1;
          limit = parseInt_param (req_query req ''limit'') 10;
          offset = js_mul (js_minus1 page) limit;
          failed = failure 500 ''Failed to fetch complaints. Please try again.''
                     [(''error_code'', JStr ''FETCH_ERROR'')]
      in case db_fault e of
           Some err \<Rightarrow> (failed, s)
         | None \<Rightarrow>
             (let totalComplaints = count_complaints s req in
              if \<not> (sql_row_count_ok limit \<and> sql_row_count_ok offset) then (failed, s)
              else
                (let totalPages = ceil_quotient totalComplaints limit in
                 (respond 200
                    [(''success'', JBool True),
                     (''pagination'', JObj
                        [(''current_page'', json_num page),
                         (''total_pages'', json_num totalPages),
                         (''total_complaints'', JNum (int totalComplaints)),
                         (''limit'', json_num limit),
                         (''has_next'', JBool (js_lt page totalPages)),
                         (''has_prev'', JBool (js_lt (Fin 1) page))]),
                     (''filters'', JObj (defined_members
                        [(''status'', req_query req ''status''),
                         (''category'', req_query req ''category''),
                         (''priority'', req_query req ''priority''),
                         (''computer_number'', req_query req ''computer_number'')]))],
                  s))))"

definition find_complaint :: "store \<Rightarrow> jsnum \<Rightarrow> complaint option" where
  "find_complaint s x = find (\<lambda>c. id_is (c_complaint_id c) x) (complaints s)"

text \<open>\<^verbatim>\<open>GET /complaints/:id\<close>; the row in \<^verbatim>\<open>data\<close> is left out.\<close>

definition get_complaint :: "env \<Rightarrow> store \<Rightarrow> request \<Rightarrow> string \<Rightarrow> response \<times> store" where
  "get_complaint e s req id_param =
     (if id_param = [] \<or> parseInt id_param = NaN then
        (failure 400 ''Invalid complaint ID provided'' [], s)
      else
        (case db_fault e of
           Some err \<Rightarrow>
             (failure 500 ''Failed to fetch complaint. Please try again.''
                [(''error_code'', JStr ''FETCH_ERROR'')], s)
         | None \<Rightarrow>
             (case find_complaint s (parseInt id_param) of
                None \<Rightarrow>
                  (failure 404 ''Complaint not found'' [(''error_code'', JStr ''NOT_FOUND'')], s)
              | Some c \<Rightarrow> (respond 200 [(''success'', JBool True)], s))))"

definition validStatuses :: "string list" where
  "validStatuses = [''pending'', ''in_progress'', ''resolved'', ''rejected'', ''closed'']"

text \<open>
  The \<^verbatim>\<open>SET\<close> list of \<^verbatim>\<open>PUT /complaints/:id\<close>: each member that is truthy is
  assigned, \<^verbatim>\<open>resolved_at\<close> is stamped when the new status is resolved, and
  \<^verbatim>\<open>updated_at\<close> always.
\<close>

definition update_complaint ::
  "env \<Rightarrow> jsval \<Rightarrow> jsval \<Rightarrow> jsval \<Rightarrow> jsval \<Rightarrow> complaint \<Rightarrow> complaint" where
  "update_complaint e status admin_response admin_notes priority c =
     c\<lparr>c_status := (if truthy status then status else c_status c),
       c_resolved_at :=
         (if truthy status \<and> status = JStr ''resolved'' then Some (now e) else c_resolved_at c),
       c_admin_response :=
         (if truthy admin_response then admin_response else c_admin_response c),
       c_admin_notes := (if truthy admin_notes then admin_notes else c_admin_notes c),
       c_priority := (if truthy priority then priority else c_priority c),
       c_updated_at := Some (now e)\<rparr>"

text \<open>\<^verbatim>\<open>PUT /complaints/:id\<close>; the updated row in \<^verbatim>\<open>data\<close> is left out.\<close>

definition put_complaint :: "env \<Rightarrow> store \<Rightarrow> request \<Rightarrow> string \<Rightarrow> response \<times> store" where
  "put_complaint e s req id_param =
     (let status = req_body req ''status'';
          admin_response = req_body req ''admin_response'';
          admin_notes = req_body req ''admin_notes'';
          priority = req_body req ''priority''
      in
      if id_param = [] \<or> parseInt id_param = NaN then
        (failure 400 ''Invalid complaint ID provided'' [], s)
      else
        (case db_fault e of
           Some err \<Rightarrow>
             (failure 500 ''Failed to update complaint. Please try again.''
                [(''error_code'', JStr ''UPDATE_ERROR'')], s)
         | None \<Rightarrow>
             (case find_complaint s (parseInt id_param) of
                None \<Rightarrow>
                  (failure 404 ''Complaint not found'' [(''error_code'', JStr ''NOT_FOUND'')], s)
              | Some existing \<Rightarrow>
                  if truthy status \<and> \<not> js_includes validStatuses status then
                    (failure 400
                       (''Invalid status. Must be one of: '' @ js_join '', '' validStatuses) [], s)
                  else if truthy priority \<and> \<not> js_includes validPriorities priority then
                    (failure 400
                       (''Invalid priority. Must be one of: '' @ js_join '', '' validPriorities)
                       [], s)
                  else if \<not> (truthy status \<or> truthy admin_response \<or> truthy admin_notes
                             \<or> truthy priority) then
                    (failure 400 ''No valid fields provided for update'' [], s)
                  else
                    (respond 200
                       [(''success'', JBool True),
                        (''message'', JStr ''Complaint updated successfully'')],
                     s\<lparr>complaints :=
                         map (\<lambda>c. if id_is (c_complaint_id c) (parseInt id_param)
                                  then update_complaint e status admin_response admin_notes
                                         priority c
                                  else c)
                           (complaints s)\<rparr>))))"

section \<open>Authentication and authorization middleware\<close>

text \<open>\<^verbatim>\<open>s.replace(pat, rep)\<close> with a string pattern: the first occurrence only.\<close>

fun replace_first :: "string \<Rightarrow> string \<Rightarrow> string \<Rightarrow> string" where
  "replace_first pat rep [] = (if pat = [] then rep else [])"
| "replace_first pat rep (c # cs) =
     (if take (length pat) (c # cs) = pat then rep @ drop (length pat) (c # cs)
      else c # replace_first pat rep cs)"

definition bearer_token :: "string \<Rightarrow> string" where
  "bearer_token h = replace_first ''Bearer '' [] h"

text \<open>
  \<^verbatim>\<open>SELECT ... FROM users WHERE computer_number = ?\<close>: the first row, if any. The
  column is text and matches a parameter that is the same string; what the server makes
  of a parameter of another type is not modelled, and such a parameter finds no row.
\<close>

definition find_user :: "store \<Rightarrow> jsval \<Rightarrow> user option" where
  "find_user s v = find (\<lambda>u. JStr (u_computer_number u) = v) (users s)"

text \<open>
  \<^verbatim>\<open>authenticate\<close> ends the request with a response (\<open>Inl\<close>) or attaches the user row
  and calls \<^verbatim>\<open>next()\<close> (\<open>Inr\<close>). An error of the token library that is neither
  \<^verbatim>\<open>JsonWebTokenError\<close> nor \<^verbatim>\<open>TokenExpiredError\<close> by name, and a failing query, end
  in the 500 of the \<^verbatim>\<open>catch\<close> block.
\<close>

definition authenticate :: "env \<Rightarrow> store \<Rightarrow> request \<Rightarrow> response + user" where
  "authenticate e s req =
     (case req_authorization req of
        None \<Rightarrow>
          Inl (failure 401 ''Access token required'' [(''error_code'', JStr ''TOKEN_REQUIRED'')])
      | Some h \<Rightarrow>
          if bearer_token h = [] then
            Inl (failure 401 ''Access token required''
                   [(''error_code'', JStr ''TOKEN_REQUIRED'')])
          else
            (case jwt_verify e (bearer_token h) of
               JsonWebTokenError \<Rightarrow>
                 Inl (failure 401 ''Invalid token'' [(''error_code'', JStr ''INVALID_TOKEN'')])
             | TokenExpiredError \<Rightarrow>
                 Inl (failure 401 ''Token expired'' [(''error_code'', JStr ''TOKEN_EXPIRED'')])
             | NotBeforeError \<Rightarrow>
                 Inl (failure 500 ''Authentication failed''
                        [(''error_code'', JStr ''AUTH_ERROR'')])
             | Decoded decoded \<Rightarrow>
                 (case db_fault e of
                    Some err \<Rightarrow>
                      Inl (failure 500 ''Authentication failed''
                             [(''error_code'', JStr ''AUTH_ERROR'')])
                  | None \<Rightarrow>
                      (case find_user s (JStr (t_computer_number decoded)) of
                         None \<Rightarrow>
                           Inl (failure 401 ''User not found''
                                  [(''error_code'', JStr ''USER_NOT_FOUND'')])
                       | Some u \<Rightarrow> Inr u))))"

text \<open>\<^verbatim>\<open>authorize(allowedRoles)\<close>: \<open>None\<close> is \<^verbatim>\<open>next()\<close>.\<close>

definition authorize :: "string list \<Rightarrow> user option \<Rightarrow> response option" where
  "authorize allowedRoles req_user =
     (case req_user of
        None \<Rightarrow>
          Some (failure 401 ''Authentication required''
                  [(''error_code'', JStr ''AUTH_REQUIRED'')])
      | Some u \<Rightarrow>
          if u_role u \<notin> set allowedRoles then
            Some (failure 403
                    (''Access denied. Required role: '' @ js_join '' or '' allowedRoles)
                    [(''error_code'', JStr ''INSUFFICIENT_PERMISSIONS''),
                     (''user_role'', JStr (u_role u)),
                     (''required_roles'', JArr (map JStr allowedRoles))])
          else None)"

text \<open>
  A route declared as \<^verbatim>\<open>router.x(path, authenticate, handler)\<close> or
  \<^verbatim>\<open>router.x(path, authenticate, authorize(roles), handler)\<close>: the handler runs with
  \<^verbatim>\<open>req.user\<close> only when the middleware before it called \<^verbatim>\<open>next()\<close>.
\<close>

definition protected ::
  "string list option \<Rightarrow> (user \<Rightarrow> env \<Rightarrow> store \<Rightarrow> request \<Rightarrow> response \<times> store)
     \<Rightarrow> env \<Rightarrow> store \<Rightarrow> request \<Rightarrow> response \<times> store" where
  "protected roles handler e s req =
     (case authenticate e s req of
        Inl r \<Rightarrow> (r, s)
      | Inr u \<Rightarrow>
          (case roles of
             None \<Rightarrow> handler u e s req
           | Some allowedRoles \<Rightarrow>
               (case authorize allowedRoles (Some u) of
                  Some r \<Rightarrow> (r, s)
                | None \<Rightarrow> handler u e s req)))"

section \<open>User routes\<close>

text \<open>
  The \<^verbatim>\<open>WHERE\<close> clause of \<^verbatim>\<open>GET /users\<close>: \<^verbatim>\<open>role = ?\<close> when a role is given, and
  four \<^verbatim>\<open>LIKE\<close> predicates on the pattern \<^verbatim>\<open>%search%\<close> when a search is given.
\<close>

definition user_matches :: "env \<Rightarrow> string option \<Rightarrow> string option \<Rightarrow> user \<Rightarrow> bool" where
  "user_matches e role search u =
     (column_filter role (JStr (u_role u))
      \<and> (case search of
           None \<Rightarrow> True
         | Some x \<Rightarrow>
             if x = [] then True
             else sql_like e (''%'' @ x @ ''%'') (u_first_name u)
                  \<or> sql_like e (''%'' @ x @ ''%'') (u_last_name u)
                  \<or> sql_like e (''%'' @ x @ ''%'') (u_email u)
                  \<or> sql_like e (''%'' @ x @ ''%'') (u_computer_number u)))"

text \<open>\<^verbatim>\<open>SELECT COUNT(*) as total FROM users WHERE ...\<close>.\<close>

definition count_users :: "env \<Rightarrow> store \<Rightarrow> request \<Rightarrow> nat" where
  "count_users e s req =
     length (filter (user_matches e (req_query req ''role'') (req_query req ''search''))
       (users s))"

text \<open>\<^verbatim>\<open>GET /users\<close>, after the middleware; the rows of the page are left out.\<close>

definition list_users :: "user \<Rightarrow> env \<Rightarrow> store \<Rightarrow> request \<Rightarrow> response \<times> store" where
  "list_users req_user e s req =
     (let page = parseInt_param (req_query req ''page'') 1;
          limit = parseInt_param (req_query req ''limit'') 10;
          offset = js_mul (js_minus1 page) limit;
          failed = failure 500 ''Failed to fetch users'' [(''error_code'', JStr ''FETCH_ERROR'')]
      in case db_fault e of
           Some err \<Rightarrow> (failed, s)
         | None \<Rightarrow>
             (let totalUsers = count_users e s req in
              if \<not> (sql_row_count_ok limit \<and> sql_row_count_ok offset) then (failed, s)
              else
                (let totalPages = ceil_quotient totalUsers limit in
                 (respond 200
                    [(''success'', JBool True),
                     (''pagination'', JObj
                        [(''current_page'', json_num page),
                         (''total_pages'', json_num totalPages),
                         (''total_users'', JNum (int totalUsers)),
                         (''limit'', json_num limit),
                         (''has_next'', JBool (js_lt page totalPages)),
                         (''has_prev'', JBool (js_lt (Fin 1) page))]),
                     (''filters'', JObj (defined_members
                        [(''role'', req_query req ''role''),
                         (''search'', req_query req ''search'')]))],
                  s))))"

text \<open>\<^verbatim>\<open>GET /users/:computer_number\<close>; the row in \<^verbatim>\<open>data\<close> is left out.\<close>

definition get_user ::
  "string \<Rightarrow> user \<Rightarrow> env \<Rightarrow> store \<Rightarrow> request \<Rightarrow> response \<times> store" where
  "get_user computer_number req_user e s req =
     (if u_role req_user \<noteq> ''admin'' \<and> u_computer_number req_user \<noteq> computer_number then
        (failure 403 ''Access denied. You can only view your own profile.''
           [(''error_code'', JStr ''ACCESS_DENIED'')], s)
      else
        (case db_fault e of
           Some err \<Rightarrow>
             (failure 500 ''Failed to fetch user'' [(''error_code'', JStr ''FETCH_ERROR'')], s)
         | None \<Rightarrow>
             (case find_user s (JStr computer_number) of
                None \<Rightarrow>
                  (failure 404 ''User not found'' [(''error_code'', JStr ''USER_NOT_FOUND'')], s)
              | Some u \<Rightarrow> (respond 200 [(''success'', JBool True)], s))))"

definition validRoles :: "string list" where
  "validRoles = [''admin'', ''lecturer'', ''student'']"

text \<open>
  \<^verbatim>\<open>PUT /users/:computer_number/role\<close>, after the middleware. The statement
  \<^verbatim>\<open>UPDATE users SET role = ? WHERE computer_number = ?\<close> rewrites every row of that
  number; the row in \<^verbatim>\<open>data\<close> is left out.
\<close>

definition put_user_role ::
  "string \<Rightarrow> user \<Rightarrow> env \<Rightarrow> store \<Rightarrow> request \<Rightarrow> response \<times> store" where
  "put_user_role computer_number req_user e s req =
     (let role = req_body req ''role'' in
      if \<not> truthy role then (failure 400 ''Role is required'' [], s)
      else if \<not> js_includes validRoles role then
        (failure 400 (''Invalid role. Must be one of: '' @ js_join '', '' validRoles) [], s)
      else
        (case db_fault e of
           Some err \<Rightarrow>
             (failure 500 ''Failed to update user role''
                [(''error_code'', JStr ''UPDATE_ERROR'')], s)
         | None \<Rightarrow>
             (case find_user s (JStr computer_number) of
                None \<Rightarrow>
                  (failure 404 ''User not found'' [(''error_code'', JStr ''USER_NOT_FOUND'')], s)
              | Some existingUser \<Rightarrow>
                  if u_computer_number req_user = computer_number
                     \<and> u_role req_user = ''admin'' \<and> role \<noteq> JStr ''admin'' then
                    (failure 400 ''You cannot change your own admin role''
                       [(''error_code'', JStr ''CANNOT_DEMOTE_SELF'')], s)
                  else
                    (respond 200
                       [(''success'', JBool True),
                        (''message'', JStr ''User role updated successfully'')],
                     s\<lparr>users :=
                         map (\<lambda>u. if u_computer_number u = computer_number
                                  then u\<lparr>u_role := string_of role\<rparr> else u)
                           (users s)\<rparr>))))"

text \<open>\<^verbatim>\<open>DELETE /users/:computer_number\<close>, after the middleware.\<close>

definition delete_user ::
  "string \<Rightarrow> user \<Rightarrow> env \<Rightarrow> store \<Rightarrow> request \<Rightarrow> response \<times> store" where
  "delete_user computer_number req_user e s req =
     (if u_computer_number req_user = computer_number then
        (failure 400 ''You cannot delete your own account''
           [(''error_code'', JStr ''CANNOT_DELETE_SELF'')], s)
      else
        (case db_fault e of
           Some err \<Rightarrow>
             (failure 500 ''Failed to delete user'' [(''error_code'', JStr ''DELETE_ERROR'')], s)
         | None \<Rightarrow>
             (case find_user s (JStr computer_number) of
                None \<Rightarrow>
                  (failure 404 ''User not found'' [(''error_code'', JStr ''USER_NOT_FOUND'')], s)
              | Some existingUser \<Rightarrow>
                  (respond 200
                     [(''success'', JBool True), (''message'', JStr ''User deleted successfully'')],
                   s\<lparr>users :=
                       filter (\<lambda>u. u_computer_number u \<noteq> computer_number) (users s)\<rparr>))))"

section \<open>Meeting routes\<close>

text \<open>
  \<^verbatim>\<open>new Date(v)\<close> as a time value in milliseconds, \<open>None\<close> for an invalid date. A
  string goes through the host's parser, a number is the time value itself when it is
  in range, null and booleans convert to numbers, and an array or object is parsed from
  its string.
\<close>

definition js_date :: "env \<Rightarrow> jsval \<Rightarrow> int option" where
  "js_date e v =
     (case v of
        JUndefined \<Rightarrow> None
      | JNull \<Rightarrow> Some 0
      | JBool b \<Rightarrow> Some (if b then 1 else 0)
      | JNum n \<Rightarrow> (if \<bar>n\<bar> \<le> 8640000000000000 then Some n else None)
      | JStr x \<Rightarrow> date_parse e x
      | JArr xs \<Rightarrow> (case to_string v of None \<Rightarrow> None | Some x \<Rightarrow> date_parse e x)
      | JObj kvs \<Rightarrow> (case to_string v of None \<Rightarrow> None | Some x \<Rightarrow> date_parse e x))"

text \<open>
  \<^verbatim>\<open>new Date(v)\<close> throws when \<open>v\<close> is an array or object that has no string; the
  \<^verbatim>\<open>catch\<close> block of the handler then answers.
\<close>

definition date_throws :: "jsval \<Rightarrow> bool" where
  "date_throws v =
     (case v of
        JArr xs \<Rightarrow> to_string v = None
      | JObj kvs \<Rightarrow> to_string v = None
      | _ \<Rightarrow> False)"

text \<open>\<^verbatim>\<open>meetingTime <= new Date()\<close>: false when the meeting time is an invalid date.\<close>

definition not_after_now :: "env \<Rightarrow> jsval \<Rightarrow> bool" where
  "not_after_now e v = (case js_date e v of None \<Rightarrow> False | Some t \<Rightarrow> t \<le> now e)"

text \<open>
  \<^verbatim>\<open>POST /meetings\<close>, after \<^verbatim>\<open>authenticate\<close>. The organizer is the caller; the
  participant column takes the number of the user row that the lookup found; a
  description that is undefined is bound as NULL.
\<close>

definition post_meeting :: "user \<Rightarrow> env \<Rightarrow> store \<Rightarrow> request \<Rightarrow> response \<times> store" where
  "post_meeting req_user e s req =
     (let title = req_body req ''title'';
          description = req_body req ''description'';
          participant_computer_number = req_body req ''participant_computer_number'';
          scheduled_at = req_body req ''scheduled_at''
      in
      if \<not> truthy title \<or> \<not> truthy participant_computer_number \<or> \<not> truthy scheduled_at then
        (failure 400 ''Title, participant, and scheduled time are required'' [], s)
      else if date_throws scheduled_at then
        (failure 500 ''Failed to schedule meeting'' [(''error_code'', JStr ''CREATE_ERROR'')], s)
      else if not_after_now e scheduled_at then
        (failure 400 ''Meeting time must be in the future'' [], s)
      else
        (case db_fault e of
           Some err \<Rightarrow>
             (failure 500 ''Failed to schedule meeting''
                [(''error_code'', JStr ''CREATE_ERROR'')], s)
         | None \<Rightarrow>
             (case find_user s participant_computer_number of
                None \<Rightarrow> (failure 404 ''Participant not found'' [], s)
              | Some participant \<Rightarrow>
                  (respond 201
                     [(''success'', JBool True),
                      (''message'', JStr ''Meeting scheduled successfully''),
                      (''data'', JObj
                         [(''meeting_id'', JNum (int (next_meeting_id s))),
                          (''title'', title),
                          (''scheduled_at'', scheduled_at),
                          (''status'', JStr ''pending''),
                          (''participant'', JObj
                             [(''computer_number'', participant_computer_number),
                              (''name'', JStr (u_first_name participant @ '' ''
                                                @ u_last_name participant))])])],
                   s\<lparr>meetings := meetings s @
                        [\<lparr>m_meeting_id = next_meeting_id s,
                          m_title = title,
                          m_description = (if description = JUndefined then JNull else description),
                          m_organizer_computer_number = u_computer_number req_user,
                          m_participant_computer_number = u_computer_number participant,
                          m_scheduled_at = scheduled_at,
                          m_status = JStr ''pending''\<rparr>],
                      next_meeting_id := Suc (next_meeting_id s)\<rparr>))))"

text \<open>The \<^verbatim>\<open>WHERE\<close> clause of \<^verbatim>\<open>GET /meetings\<close>: the caller organizes or takes part.\<close>

definition meeting_matches :: "user \<Rightarrow> string option \<Rightarrow> meeting \<Rightarrow> bool" where
  "meeting_matches req_user status m =
     ((m_organizer_computer_number m = u_computer_number req_user
       \<or> m_participant_computer_number m = u_computer_number req_user)
      \<and> column_filter status (m_status m))"

text \<open>\<^verbatim>\<open>SELECT COUNT(*) as total FROM meetings WHERE ...\<close>.\<close>

definition count_meetings :: "user \<Rightarrow> store \<Rightarrow> request \<Rightarrow> nat" where
  "count_meetings req_user s req =
     length (filter (meeting_matches req_user (req_query req ''status'')) (meetings s))"

text \<open>\<^verbatim>\<open>GET /meetings\<close>, after \<^verbatim>\<open>authenticate\<close>; the rows of the page are left out.\<close>

definition list_meetings :: "user \<Rightarrow> env \<Rightarrow> store \<Rightarrow> request \<Rightarrow> response \<times> store" where
  "list_meetings req_user e s req =
     (let page = parseInt_param (req_query req ''page'') 1;
          limit = parseInt_param (req_query req ''limit'') 10;
          offset = js_mul (js_minus1 page) limit;
          failed = failure 500 ''Failed to fetch meetings'' []
      in case db_fault e of
           Some err \<Rightarrow> (failed, s)
         | None \<Rightarrow>
             (let totalMeetings = count_meetings req_user s req in
              if \<not> (sql_row_count_ok limit \<and> sql_row_count_ok offset) then (failed, s)
              else
                (let totalPages = ceil_quotient totalMeetings limit in
                 (respond 200
                    [(''success'', JBool True),
                     (''pagination'', JObj
                        [(''current_page'', json_num page),
                         (''total_pages'', json_num totalPages),
                         (''total_meetings'', JNum (int totalMeetings)),
                         (''limit'', json_num limit)])],
                  s))))"

definition find_meeting :: "store \<Rightarrow> jsnum \<Rightarrow> meeting option" where
  "find_meeting s x = find (\<lambda>m. id_is (m_meeting_id m) x) (meetings s)"

text \<open>
  \<^verbatim>\<open>GET /meetings/:id\<close>, after \<^verbatim>\<open>authenticate\<close>. The identifier is not checked
  before it is bound, so an identifier without digits fails the statement; the row in
  \<^verbatim>\<open>data\<close> is left out.
\<close>

definition get_meeting ::
  "string \<Rightarrow> user \<Rightarrow> env \<Rightarrow> store \<Rightarrow> request \<Rightarrow> response \<times> store" where
  "get_meeting id_param req_user e s req =
     (if db_fault e \<noteq> None \<or> \<not> sql_number_ok (parseInt id_param) then
        (failure 500 ''Failed to fetch meeting'' [], s)
      else
        (case find_meeting s (parseInt id_param) of
           None \<Rightarrow> (failure 404 ''Meeting not found'' [], s)
         | Some meeting \<Rightarrow>
             (let canAccess =
                    (u_role req_user = ''admin''
                     \<or> m_organizer_computer_number meeting = u_computer_number req_user
                     \<or> m_participant_computer_number meeting = u_computer_number req_user)
              in if \<not> canAccess then (failure 403 ''Access denied'' [], s)
                 else (respond 200 [(''success'', JBool True)], s))))"

definition validMeetingStatuses :: "string list" where
  "validMeetingStatuses = [''pending'', ''confirmed'', ''cancelled'']"

text \<open>\<^verbatim>\<open>PUT /meetings/:id\<close>, after \<^verbatim>\<open>authenticate\<close>.\<close>

definition put_meeting ::
  "string \<Rightarrow> user \<Rightarrow> env \<Rightarrow> store \<Rightarrow> request \<Rightarrow> response \<times> store" where
  "put_meeting id_param req_user e s req =
     (let status = req_body req ''status'' in
      if \<not> js_includes validMeetingStatuses status then
        (failure 400 ''Invalid status''
           [(''valid_statuses'', JArr (map JStr validMeetingStatuses))], s)
      else if db_fault e \<noteq> None \<or> \<not> sql_number_ok (parseInt id_param) then
        (failure 500 ''Failed to update meeting'' [], s)
      else
        (case find_meeting s (parseInt id_param) of
           None \<Rightarrow> (failure 404 ''Meeting not found'' [], s)
         | Some meeting \<Rightarrow>
             (let canUpdate =
                    (u_role req_user = ''admin''
                     \<or> m_participant_computer_number meeting = u_computer_number req_user)
              in if \<not> canUpdate then
                   (failure 403 ''Only the participant or admin can update meeting status'' [], s)
                 else
                   (respond 200
                      [(''success'', JBool True),
                       (''message'', JStr (''Meeting '' @ string_of status @ '' successfully''))],
                    s\<lparr>meetings :=
                        map (\<lambda>m. if id_is (m_meeting_id m) (parseInt id_param)
                                 then m\<lparr>m_status := status\<rparr> else m)
                          (meetings s)\<rparr>))))"

text \<open>\<^verbatim>\<open>DELETE /meetings/:id\<close>, after \<^verbatim>\<open>authenticate\<close>.\<close>

definition delete_meeting ::
  "string \<Rightarrow> user \<Rightarrow> env \<Rightarrow> store \<Rightarrow> request \<Rightarrow> response \<times> store" where
  "delete_meeting id_param req_user e s req =
     (if db_fault e \<noteq> None \<or> \<not> sql_number_ok (parseInt id_param) then
        (failure 500 ''Failed to delete meeting'' [], s)
      else
        (case find_meeting s (parseInt id_param) of
           None \<Rightarrow> (failure 404 ''Meeting not found'' [], s)
         | Some meeting \<Rightarrow>
             (let canDelete =
                    (u_role req_user = ''admin''
                     \<or> m_organizer_computer_number meeting = u_computer_number req_user)
              in if \<not> canDelete then
                   (failure 403 ''Only the organizer or admin can delete this meeting'' [], s)
                 else
                   (respond 200
                      [(''success'', JBool True),
                       (''message'', JStr ''Meeting deleted successfully'')],
                    s\<lparr>meetings :=
                        filter (\<lambda>m. \<not> id_is (m_meeting_id m) (parseInt id_param))
                          (meetings s)\<rparr>))))"

section \<open>Login\<close>

text \<open>
  \<^verbatim>\<open>POST /auth/login\<close>. \<^verbatim>\<open>bcrypt.compare\<close> takes a string and rejects anything else,
  which ends in the 500 of the \<^verbatim>\<open>catch\<close> block. The token is signed over the
  number, role and email of the stored row, with the configured lifetime or
  \<^verbatim>\<open>24h\<close>; when \<^verbatim>\<open>jwt.sign\<close> throws, the \<^verbatim>\<open>catch\<close> block answers 500 as well.
  The answer carries the row without its password hash.
\<close>

definition expires_in :: "env \<Rightarrow> string" where
  "expires_in e = (case JWT_EXPIRES_IN e of None \<Rightarrow> ''24h'' | Some x \<Rightarrow> if x = [] then ''24h'' else x)"

definition login :: "env \<Rightarrow> store \<Rightarrow> request \<Rightarrow> response \<times> store" where
  "login e s req =
     (let computer_number = req_body req ''computer_number'';
          password = req_body req ''password'';
          failed = failure 500 ''Login failed. Please try again.''
                     [(''error_code'', JStr ''LOGIN_ERROR'')];
          invalid = failure 401 ''Invalid credentials''
                      [(''error_code'', JStr ''INVALID_CREDENTIALS'')]
      in
      if \<not> truthy computer_number \<or> \<not> truthy password then
        (failure 400 ''Computer number and password are required'' [], s)
      else
        (case db_fault e of
           Some err \<Rightarrow> (failed, s)
         | None \<Rightarrow>
             (case find_user s computer_number of
                None \<Rightarrow> (invalid, s)
              | Some u \<Rightarrow>
                  (case password of
                     JStr pw \<Rightarrow>
                       if \<not> bcrypt_compare e pw (u_password_hash u) then (invalid, s)
                       else
                         (case jwt_sign e
                                 \<lparr>t_computer_number = u_computer_number u,
                                   t_role = u_role u,
                                   t_email = u_email u\<rparr>
                                 (expires_in e) of
                            None \<Rightarrow> (failed, s)
                          | Some token \<Rightarrow>
                              (respond 200
                                 [(''success'', JBool True),
                                  (''message'', JStr ''Login successful''),
                                  (''data'', JObj
                                     [(''user'', JObj
                                         [(''computer_number'', JStr (u_computer_number u)),
                                          (''role'', JStr (u_role u)),
                                          (''first_name'', JStr (u_first_name u)),
                                          (''last_name'', JStr (u_last_name u)),
                                          (''email'', JStr (u_email u)),
                                          (''phone'', JStr (u_phone u))]),
                                      (''token'', JStr token),
                                      (''expires_in'', JStr (expires_in e))])],
                               s))
                   | _ \<Rightarrow> (failed, s)))))"

section \<open>The application\<close>

text \<open>
  The routes as the routers mount them: the complaint routes and login carry no
  middleware, the meeting routes run \<^verbatim>\<open>authenticate\<close>, and the user routes run
  \<^verbatim>\<open>authenticate\<close>, the listing, role and delete routes also \<^verbatim>\<open>authorize(['admin'])\<close>.
\<close>

datatype route =
    PostComplaint
  | GetComplaints
  | GetComplaint string
  | PutComplaint string
  | GetUsers
  | GetUser string
  | PutUserRole string
  | DeleteUser string
  | PostMeeting
  | GetMeetings
  | GetMeeting string
  | PutMeeting string
  | DeleteMeeting string
  | PostLogin

fun app :: "route \<Rightarrow> env \<Rightarrow> store \<Rightarrow> request \<Rightarrow> response \<times> store" where
  "app PostComplaint = post_complaint"
| "app GetComplaints = list_complaints"
| "app (GetComplaint i) = (\<lambda>e s req. get_complaint e s req i)"
| "app (PutComplaint i) = (\<lambda>e s req. put_complaint e s req i)"
| "app GetUsers = protected (Some [''admin'']) list_users"
| "app (GetUser n) = protected None (get_user n)"
| "app (PutUserRole n) = protected (Some [''admin'']) (put_user_role n)"
| "app (DeleteUser n) = protected (Some [''admin'']) (delete_user n)"
| "app PostMeeting = protected None post_meeting"
| "app GetMeetings = protected None list_meetings"
| "app (GetMeeting i) = protected None (get_meeting i)"
| "app (PutMeeting i) = protected None (put_meeting i)"
| "app (DeleteMeeting i) = protected None (delete_meeting i)"
| "app PostLogin = login"

text \<open>The routes that run \<^verbatim>\<open>authenticate\<close>.\<close>

fun is_protected :: "route \<Rightarrow> bool" where
  "is_protected PostComplaint = False"
| "is_protected GetComplaints = False"
| "is_protected (GetComplaint i) = False"
| "is_protected (PutComplaint i) = False"
| "is_protected PostLogin = False"
| "is_protected r = True"

section \<open>A sample deployment\<close>

text \<open>
  A store with an administrator, two students and a lecturer, one complaint and one
  meeting between the first student and the lecturer, and an environment whose token
  library signs for three lifetimes and accepts the tokens it lists. The properties
  below are evaluated on it.
\<close>

definition sample_admin :: user where
  "sample_admin =
     \<lparr>u_computer_number = ''2019000001'', u_role = ''admin'', u_first_name = ''Ada'',
      u_last_name = ''Banda'', u_email = ''ada@unza.zm'', u_phone = ''0970000001'',
      u_password_hash = ''hash:admin-pw''\<rparr>"

definition sample_student :: user where
  "sample_student =
     \<lparr>u_computer_number = ''2019000002'', u_role = ''student'', u_first_name = ''Ben'',
      u_last_name = ''Chanda'', u_email = ''ben@unza.zm'', u_phone = ''0970000002'',
      u_password_hash = ''hash:student-pw''\<rparr>"

definition sample_lecturer :: user where
  "sample_lecturer =
     \<lparr>u_computer_number = ''2019000003'', u_role = ''lecturer'', u_first_name = ''Cleo'',
      u_last_name = ''Daka'', u_email = ''cleo@unza.zm'', u_phone = ''0970000003'',
      u_password_hash = ''hash:lecturer-pw''\<rparr>"

definition sample_outsider :: user where
  "sample_outsider =
     \<lparr>u_computer_number = ''2019000004'', u_role = ''student'', u_first_name = ''Dan'',
      u_last_name = ''Eze'', u_email = ''dan@unza.zm'', u_phone = ''0970000004'',
      u_password_hash = ''hash:outsider-pw''\<rparr>"

definition sample_complaint :: complaint where
  "sample_complaint =
     \<lparr>c_complaint_id = 1, c_computer_number = JStr ''2019000002'',
      c_title = JStr ''Broken projector'', c_description = JStr ''Room 12'',
      c_category = JStr ''facilities'', c_priority = JStr ''medium'',
      c_contact_phone = JNull, c_contact_email = JNull, c_anonymous = False,
      c_status = JStr ''pending'', c_admin_response = JNull, c_admin_notes = JNull,
      c_created_at = 1760000000000, c_updated_at = None, c_resolved_at = None\<rparr>"

definition sample_meeting :: meeting where
  "sample_meeting =
     \<lparr>m_meeting_id = 1, m_title = JStr ''Project review'', m_description = JNull,
      m_organizer_computer_number = ''2019000002'',
      m_participant_computer_number = ''2019000003'',
      m_scheduled_at = JStr ''2030-01-01T10:00:00.000Z'', m_status = JStr ''pending''\<rparr>"

definition sample_store :: store where
  "sample_store =
     \<lparr>users = [sample_admin, sample_student, sample_lecturer, sample_outsider],
      complaints = [sample_complaint],
      meetings = [sample_meeting],
      next_complaint_id = 2,
      next_meeting_id = 2\<rparr>"

definition sample_claims :: "user \<Rightarrow> token_claims" where
  "sample_claims u =
     \<lparr>t_computer_number = u_computer_number u, t_role = u_role u, t_email = u_email u\<rparr>"

definition sample_env :: env where
  "sample_env =
     \<lparr>jwt_sign =
        (\<lambda>c lifetime. if lifetime \<in> set [''24h'', ''1h'', ''7d'']
                      then Some (''signed:'' @ t_computer_number c) else None),
      jwt_verify =
        (\<lambda>t. if t = ''signed:2019000001'' then Decoded (sample_claims sample_admin)
              else if t = ''signed:2019000002'' then Decoded (sample_claims sample_student)
              else if t = ''signed:2019000004'' then Decoded (sample_claims sample_outsider)
              else if t = ''signed:old'' then TokenExpiredError
              else JsonWebTokenError),
      JWT_EXPIRES_IN = None,
      bcrypt_compare = (\<lambda>pw h. h = ''hash:'' @ pw),
      date_parse =
        (\<lambda>x. if x = ''2030-01-01T10:00:00.000Z'' then Some 1893492000000
              else if x = ''2020-01-01T10:00:00.000Z'' then Some 1577872800000
              else None),
      now = 1762128000000,
      sql_like = (\<lambda>pattern x. pattern = ''%'' @ x @ ''%''),
      db_fault = None\<rparr>"

definition no_body :: "string \<Rightarrow> jsval" where
  "no_body = (\<lambda>k. JUndefined)"

text \<open>
  Requests without and with a bearer token; \<open>q\<close> is the \<^verbatim>\<open>limit\<close> parameter of the
  query string, which has no other parameter.
\<close>

definition anonymous_request :: "string option \<Rightarrow> (string \<Rightarrow> jsval) \<Rightarrow> request" where
  "anonymous_request q b =
     \<lparr>req_authorization = None, req_body = b,
      req_query = (\<lambda>k. if k = ''limit'' then q else None)\<rparr>"

definition bearer_request :: "string \<Rightarrow> string option \<Rightarrow> (string \<Rightarrow> jsval) \<Rightarrow> request" where
  "bearer_request tok q b =
     \<lparr>req_authorization = Some (''Bearer '' @ tok), req_body = b,
      req_query = (\<lambda>k. if k = ''limit'' then q else None)\<rparr>"

subsection \<open>Sample requests\<close>

text \<open>
  The requests on which the properties below are evaluated, and two readers of an
  answer.
\<close>

definition req_no_category :: request where
  "req_no_category =
     anonymous_request None (no_body(''title'' := JStr ''Leak'', ''description'' := JStr ''Roof''))"

definition req_bad_category :: request where
  "req_bad_category =
     anonymous_request None
       (no_body(''title'' := JStr ''Leak'', ''description'' := JStr ''Roof'',
                ''category'' := JStr ''plumbing''))"

definition req_unknown_submitter :: request where
  "req_unknown_submitter =
     anonymous_request None
       (no_body(''title'' := JStr ''Leak'', ''description'' := JStr ''Roof'',
                ''category'' := JStr ''facilities'',
                ''computer_number'' := JStr ''2024999999''))"

definition req_short_submitter :: request where
  "req_short_submitter =
     anonymous_request None
       (no_body(''title'' := JStr ''Leak'', ''description'' := JStr ''Roof'',
                ''category'' := JStr ''facilities'',
                ''computer_number'' := JStr ''12345''))"

definition req_unprintable_submitter :: request where
  "req_unprintable_submitter =
     anonymous_request None
       (no_body(''title'' := JStr ''Leak'', ''description'' := JStr ''Roof'',
                ''category'' := JStr ''facilities'',
                ''computer_number'' := JObj [(''toString'', JNum 0)]))"

definition req_anonymous_bad_priority :: request where
  "req_anonymous_bad_priority =
     anonymous_request None
       (no_body(''title'' := JStr ''Leak'', ''description'' := JStr ''Roof'',
                ''category'' := JStr ''facilities'', ''anonymous'' := JBool True,
                ''priority'' := JStr ''bogus''))"

definition req_anonymous :: request where
  "req_anonymous =
     anonymous_request None
       (no_body(''title'' := JStr ''Leak'', ''description'' := JStr ''Roof'',
                ''category'' := JStr ''facilities'', ''anonymous'' := JBool True,
                ''computer_number'' := JStr ''not a number''))"

definition req_close_complaint :: request where
  "req_close_complaint =
     anonymous_request None
       (no_body(''status'' := JStr ''resolved'', ''priority'' := JStr ''low'',
                ''admin_response'' := JStr ''Fixed'', ''admin_notes'' := JStr ''none''))"

definition req_admin_three_per_page :: request where
  "req_admin_three_per_page = bearer_request ''signed:2019000001'' (Some ''3'') no_body"

definition req_student_three_per_page :: request where
  "req_student_three_per_page = bearer_request ''signed:2019000002'' (Some ''3'') no_body"

definition req_student_meetings :: request where
  "req_student_meetings = bearer_request ''signed:2019000002'' None no_body"

text \<open>The \<^verbatim>\<open>pagination\<close> member of an answer, undefined when there is none.\<close>

definition pagination :: "response \<times> store \<Rightarrow> jsval" where
  "pagination r = get_member (payload (fst r)) ''pagination''"

definition req_admin_demotes_self :: request where
  "req_admin_demotes_self =
     bearer_request ''signed:2019000001'' None (no_body(''role'' := JStr ''student''))"

definition req_outsider_confirms :: request where
  "req_outsider_confirms =
     bearer_request ''signed:2019000004'' None (no_body(''status'' := JStr ''confirmed''))"

definition req_login_admin :: request where
  "req_login_admin =
     anonymous_request None
       (no_body(''computer_number'' := JStr ''2019000001'', ''password'' := JStr ''admin-pw''))"

definition req_expired_token :: request where
  "req_expired_token = bearer_request ''signed:old'' None no_body"

definition req_tampered_token :: request where
  "req_tampered_token = bearer_request ''signed:2019000001x'' None no_body"

definition req_meeting_tomorrow :: request where
  "req_meeting_tomorrow =
     bearer_request ''signed:2019000002'' None
       (no_body(''title'' := JStr ''Review'',
                ''participant_computer_number'' := JStr ''2019000003'',
                ''scheduled_at'' := JStr ''tomorrow''))"

definition req_meeting_past :: request where
  "req_meeting_past =
     bearer_request ''signed:2019000002'' None
       (no_body(''title'' := JStr ''Review'',
                ''participant_computer_number'' := JStr ''2019000003'',
                ''scheduled_at'' := JStr ''2020-01-01T10:00:00.000Z''))"

text \<open>The \<^verbatim>\<open>data.token\<close> member of an answer.\<close>

definition token_of :: "response \<times> store \<Rightarrow> jsval" where
  "token_of r = get_member (get_member (payload (fst r)) ''data'') ''token''"

section \<open>Properties\<close>

lemma get_member_simps [simp]:
  "get_member (JObj kvs) k = (case map_of kvs k of Some x \<Rightarrow> x | None \<Rightarrow> JUndefined)"
  "get_member JUndefined k = JUndefined"
  by (simp_all add: get_member_def)

lemma response_simps [simp]:
  "status_code (respond c ms) = c"
  "payload (respond c ms) = JObj ms"
  "status_code (failure c m x) = c"
  "payload (failure c m x) = JObj ([(''success'', JBool False), (''message'', JStr m)] @ x)"
  by (simp_all add: respond_def failure_def)

subsection \<open>Submitting a complaint without a category\<close>

text \<open>
  C4, as the code has it. A submission whose category is missing (or falsy) is answered
  with 400 and no row is inserted; the body names the required members and marks the
  category as required, and it has no list of valid categories. The list of valid
  categories is sent when title, description and category are all present and the
  category is not one of the list; that request is answered with 400 too and inserts
  nothing.
\<close>

theorem missing_category_is_reported_without_list:
  "(\<not> truthy (req_body req ''category'') \<longrightarrow>
      status_code (fst (post_complaint e s req)) = 400
      \<and> snd (post_complaint e s req) = s
      \<and> get_member (payload (fst (post_complaint e s req))) ''message''
          = JStr ''Title, description, and category are required''
      \<and> get_member (get_member (payload (fst (post_complaint e s req))) ''errors'') ''category''
          = JStr ''Category is required''
      \<and> get_member (payload (fst (post_complaint e s req))) ''valid_categories'' = JUndefined)
   \<and> (truthy (req_body req ''title'') \<and> truthy (req_body req ''description'')
       \<and> truthy (req_body req ''category'')
       \<and> \<not> js_includes validCategories (req_body req ''category'') \<longrightarrow>
      status_code (fst (post_complaint e s req)) = 400
      \<and> snd (post_complaint e s req) = s
      \<and> get_member (payload (fst (post_complaint e s req))) ''valid_categories''
          = JArr (map JStr validCategories))"
  by (simp add: post_complaint_def Let_def)

text \<open>
  C4 as stated fails: this submission has a title and a description and no category, and
  the whole answer is the envelope below, which lists no category.
\<close>

theorem missing_category_counterexample:
  "req_body req_no_category ''category'' = JUndefined
   \<and> fst (post_complaint sample_env sample_store req_no_category)
       = \<lparr>status_code = 400,
          payload = JObj
            [(''success'', JBool False),
             (''message'', JStr ''Title, description, and category are required''),
             (''errors'', JObj
                [(''title'', JNull), (''description'', JNull),
                 (''category'', JStr ''Category is required'')])]\<rparr>"
  by (simp add: post_complaint_def Let_def req_no_category_def anonymous_request_def no_body_def
      failure_def respond_def)

text \<open>Both cases of the amended C4 on the sample store.\<close>

theorem missing_category_witness:
  "\<not> truthy (req_body req_no_category ''category'')
   \<and> status_code (fst (post_complaint sample_env sample_store req_no_category)) = 400
   \<and> snd (post_complaint sample_env sample_store req_no_category) = sample_store
   \<and> get_member (payload (fst (post_complaint sample_env sample_store req_no_category)))
        ''valid_categories'' = JUndefined
   \<and> truthy (req_body req_bad_category ''category'')
   \<and> \<not> js_includes validCategories (req_body req_bad_category ''category'')
   \<and> get_member (payload (fst (post_complaint sample_env sample_store req_bad_category)))
        ''valid_categories'' = JArr (map JStr validCategories)"
proof -
  have a: "\<not> truthy (req_body req_no_category ''category'')"
    by (simp add: req_no_category_def anonymous_request_def no_body_def)
  have b: "truthy (req_body req_bad_category ''title'')
       \<and> truthy (req_body req_bad_category ''description'')
       \<and> truthy (req_body req_bad_category ''category'')
       \<and> \<not> js_includes validCategories (req_body req_bad_category ''category'')"
    by (simp add: req_bad_category_def anonymous_request_def no_body_def js_includes_def
        validCategories_def)
  from a b missing_category_is_reported_without_list [of req_no_category sample_env sample_store]
    missing_category_is_reported_without_list [of req_bad_category sample_env sample_store]
  show ?thesis by simp
qed

subsection \<open>The submitter of a complaint that is not anonymous\<close>

lemma truthy_with_default: "truthy v \<Longrightarrow> with_default v d = v"
  by (cases v) (simp_all add: with_default_def)

lemma js_includes_truthy:
  "js_includes xs v \<Longrightarrow> [] \<notin> set xs \<Longrightarrow> truthy v"
  by (cases v) (auto simp add: js_includes_def)

lemma valid_category_truthy: "js_includes validCategories v \<Longrightarrow> truthy v"
  using js_includes_truthy [of validCategories v] by (simp add: validCategories_def)

text \<open>
  C6, as the code has it. For a submission that is not anonymous the handler checks the
  submitter by shape only. When the computer number is missing, or its string is not
  exactly ten decimal digits, the answer is 400 and no row is inserted. When the
  computer number has no string, so that the pattern test throws, no row is inserted
  either, and the answer is the 500 of the \<^verbatim>\<open>catch\<close> block once the guards on title,
  description, category and priority have passed, and the 400 of the first of these
  guards that fails otherwise. When a row is created (201), the computer number of the
  request is present and has ten digits, and the new row carries it as it was sent,
  marked as not anonymous. The users table has no part in the outcome: with any other
  list of users the answer and the complaints are the same.
\<close>

theorem non_anonymous_submitter_is_checked_by_format:
  assumes "\<not> truthy (with_default (req_body req ''anonymous'') (JBool False))"
  shows "(\<not> truthy (req_body req ''computer_number'')
            \<or> computerNumberRegex_test (req_body req ''computer_number'') = Some False \<longrightarrow>
          status_code (fst (post_complaint e s req)) = 400 \<and> snd (post_complaint e s req) = s)
       \<and> (computerNumberRegex_test (req_body req ''computer_number'') = None \<longrightarrow>
            snd (post_complaint e s req) = s
            \<and> status_code (fst (post_complaint e s req))
                = (if truthy (req_body req ''title'') \<and> truthy (req_body req ''description'')
                      \<and> js_includes validCategories (req_body req ''category'')
                      \<and> js_includes validPriorities
                           (with_default (req_body req ''priority'') (JStr ''medium''))
                   then 500 else 400))
       \<and> (status_code (fst (post_complaint e s req)) = 201 \<longrightarrow>
            truthy (req_body req ''computer_number'')
            \<and> computerNumberRegex_test (req_body req ''computer_number'') = Some True
            \<and> length (complaints (snd (post_complaint e s req))) = Suc (length (complaints s))
            \<and> c_computer_number (last (complaints (snd (post_complaint e s req))))
                = req_body req ''computer_number''
            \<and> \<not> c_anonymous (last (complaints (snd (post_complaint e s req)))))
       \<and> post_complaint e (s\<lparr>users := us\<rparr>) req
           = (fst (post_complaint e s req), (snd (post_complaint e s req))\<lparr>users := us\<rparr>)"
proof (intro conjI impI)
  assume "\<not> truthy (req_body req ''computer_number'')
            \<or> computerNumberRegex_test (req_body req ''computer_number'') = Some False"
  then show "status_code (fst (post_complaint e s req)) = 400"
    and "snd (post_complaint e s req) = s"
    using assms by (auto simp add: post_complaint_def Let_def)
next
  assume n: "computerNumberRegex_test (req_body req ''computer_number'') = None"
  then have t: "truthy (req_body req ''computer_number'')"
    by (cases "req_body req ''computer_number''") (simp_all add: computerNumberRegex_test_def)
  show "snd (post_complaint e s req) = s"
    using assms n t by (simp add: post_complaint_def Let_def)
  show "status_code (fst (post_complaint e s req))
      = (if truthy (req_body req ''title'') \<and> truthy (req_body req ''description'')
            \<and> js_includes validCategories (req_body req ''category'')
            \<and> js_includes validPriorities
                 (with_default (req_body req ''priority'') (JStr ''medium''))
         then 500 else 400)"
    using assms n t valid_category_truthy [of "req_body req ''category''"]
    by (auto simp add: post_complaint_def Let_def post_complaint_internal_error_def)
next
  assume c: "status_code (fst (post_complaint e s req)) = 201"
  have shape: "truthy (req_body req ''computer_number'')
      \<and> computerNumberRegex_test (req_body req ''computer_number'') = Some True"
    using assms c
    by (cases "computerNumberRegex_test (req_body req ''computer_number'')")
      (auto simp add: post_complaint_def Let_def post_complaint_failed_def
        post_complaint_internal_error_def split: option.splits if_splits)
  then show "truthy (req_body req ''computer_number'')"
    and "computerNumberRegex_test (req_body req ''computer_number'') = Some True"
    by blast+
  have row: "length (complaints (snd (post_complaint e s req))) = Suc (length (complaints s))
      \<and> c_computer_number (last (complaints (snd (post_complaint e s req))))
          = req_body req ''computer_number''
      \<and> \<not> c_anonymous (last (complaints (snd (post_complaint e s req))))"
    using assms c shape
    by (simp add: post_complaint_def Let_def post_complaint_failed_def
        post_complaint_internal_error_def split: option.splits if_splits)
  then show "length (complaints (snd (post_complaint e s req))) = Suc (length (complaints s))"
    and "c_computer_number (last (complaints (snd (post_complaint e s req))))
          = req_body req ''computer_number''"
    and "\<not> c_anonymous (last (complaints (snd (post_complaint e s req))))"
    by blast+
next
  show "post_complaint e (s\<lparr>users := us\<rparr>) req
      = (fst (post_complaint e s req), (snd (post_complaint e s req))\<lparr>users := us\<rparr>)"
    by (simp add: post_complaint_def Let_def split: option.splits)
qed

text \<open>
  C6 as stated fails: no user of the sample store has the number 2024999999, and a
  submission under that number that is not anonymous is answered with 201 and adds a
  row that carries the number. (The handler sends the insert without reading the users
  table; constraints that a database may hold on its own are not part of the sources.)
\<close>

theorem unknown_submitter_counterexample:
  "with_default (req_body req_unknown_submitter ''anonymous'') (JBool False) = JBool False
   \<and> req_body req_unknown_submitter ''computer_number'' = JStr ''2024999999''
   \<and> map u_computer_number (users sample_store)
       = [''2019000001'', ''2019000002'', ''2019000003'', ''2019000004'']
   \<and> status_code (fst (post_complaint sample_env sample_store req_unknown_submitter)) = 201
   \<and> map c_computer_number
        (complaints (snd (post_complaint sample_env sample_store req_unknown_submitter)))
       = [JStr ''2019000002'', JStr ''2024999999'']"
  by (simp add: post_complaint_def Let_def req_unknown_submitter_def anonymous_request_def
      no_body_def with_default_def js_includes_def validCategories_def validPriorities_def
      computerNumberRegex_test_def is_digit_def sample_env_def sample_store_def
      sample_admin_def sample_student_def sample_lecturer_def sample_outsider_def
      sample_complaint_def)

text \<open>
  The amended C6 on the sample store: a five-digit number is refused with 400, an object
  that has no string ends in 500, both without a row, and a ten-digit number is stored.
\<close>

theorem non_anonymous_submitter_witness:
  "\<not> truthy (with_default (req_body req_short_submitter ''anonymous'') (JBool False))
   \<and> computerNumberRegex_test (req_body req_short_submitter ''computer_number'') = Some False
   \<and> status_code (fst (post_complaint sample_env sample_store req_short_submitter)) = 400
   \<and> snd (post_complaint sample_env sample_store req_short_submitter) = sample_store
   \<and> \<not> truthy (with_default (req_body req_unprintable_submitter ''anonymous'') (JBool False))
   \<and> req_body req_unprintable_submitter ''computer_number'' = JObj [(''toString'', JNum 0)]
   \<and> computerNumberRegex_test (JObj [(''toString'', JNum 0)]) = None
   \<and> status_code (fst (post_complaint sample_env sample_store req_unprintable_submitter)) = 500
   \<and> snd (post_complaint sample_env sample_store req_unprintable_submitter) = sample_store
   \<and> \<not> truthy (with_default (req_body req_unknown_submitter ''anonymous'') (JBool False))
   \<and> status_code (fst (post_complaint sample_env sample_store req_unknown_submitter)) = 201
   \<and> computerNumberRegex_test (req_body req_unknown_submitter ''computer_number'') = Some True
   \<and> c_computer_number
        (last (complaints (snd (post_complaint sample_env sample_store req_unknown_submitter))))
       = JStr ''2024999999''"
proof -
  have a: "\<not> truthy (with_default (req_body req_short_submitter ''anonymous'') (JBool False))"
    by (simp add: req_short_submitter_def anonymous_request_def no_body_def with_default_def)
  have b: "computerNumberRegex_test (req_body req_short_submitter ''computer_number'')
      = Some False"
    by (simp add: req_short_submitter_def anonymous_request_def no_body_def
        computerNumberRegex_test_def)
  have c: "\<not> truthy (with_default (req_body req_unknown_submitter ''anonymous'') (JBool False))"
    by (simp add: req_unknown_submitter_def anonymous_request_def no_body_def with_default_def)
  have d: "status_code (fst (post_complaint sample_env sample_store req_unknown_submitter)) = 201"
    by (simp add: post_complaint_def Let_def req_unknown_submitter_def anonymous_request_def
      no_body_def with_default_def js_includes_def validCategories_def validPriorities_def
      computerNumberRegex_test_def is_digit_def sample_env_def)
  have e: "req_body req_unknown_submitter ''computer_number'' = JStr ''2024999999''"
    by (simp add: req_unknown_submitter_def anonymous_request_def no_body_def)
  have u: "\<not> truthy (with_default (req_body req_unprintable_submitter ''anonymous'')
      (JBool False))"
    and v: "req_body req_unprintable_submitter ''computer_number''
      = JObj [(''toString'', JNum 0)]"
    and guards: "truthy (req_body req_unprintable_submitter ''title'')
      \<and> truthy (req_body req_unprintable_submitter ''description'')
      \<and> js_includes validCategories (req_body req_unprintable_submitter ''category'')
      \<and> js_includes validPriorities
           (with_default (req_body req_unprintable_submitter ''priority'') (JStr ''medium''))"
    by (simp_all add: req_unprintable_submitter_def anonymous_request_def no_body_def
        with_default_def js_includes_def validCategories_def validPriorities_def)
  have w: "computerNumberRegex_test (JObj [(''toString'', JNum 0)]) = None"
    by (simp add: computerNumberRegex_test_def)
  have f: "status_code (fst (post_complaint sample_env sample_store req_short_submitter)) = 400
      \<and> snd (post_complaint sample_env sample_store req_short_submitter) = sample_store"
    using non_anonymous_submitter_is_checked_by_format [OF a, of sample_env sample_store] b
    by blast
  have "snd (post_complaint sample_env sample_store req_unprintable_submitter) = sample_store
      \<and> status_code (fst (post_complaint sample_env sample_store req_unprintable_submitter))
          = (if truthy (req_body req_unprintable_submitter ''title'')
                \<and> truthy (req_body req_unprintable_submitter ''description'')
                \<and> js_includes validCategories (req_body req_unprintable_submitter ''category'')
                \<and> js_includes validPriorities
                     (with_default (req_body req_unprintable_submitter ''priority'')
                        (JStr ''medium''))
             then 500 else 400)"
    using non_anonymous_submitter_is_checked_by_format [OF u, of sample_env sample_store]
      w [folded v]
    by blast
  then have h: "status_code (fst (post_complaint sample_env sample_store
        req_unprintable_submitter)) = 500"
    and h': "snd (post_complaint sample_env sample_store req_unprintable_submitter)
        = sample_store"
    using guards by simp_all
  have g: "truthy (req_body req_unknown_submitter ''computer_number'')
      \<and> computerNumberRegex_test (req_body req_unknown_submitter ''computer_number'') = Some True
      \<and> c_computer_number
           (last (complaints (snd (post_complaint sample_env sample_store
              req_unknown_submitter))))
          = req_body req_unknown_submitter ''computer_number''"
    using non_anonymous_submitter_is_checked_by_format [OF c, of sample_env sample_store] d
    by blast
  from g have g1: "computerNumberRegex_test (req_body req_unknown_submitter ''computer_number'')
      = Some True"
    and g2: "c_computer_number
           (last (complaints (snd (post_complaint sample_env sample_store
              req_unknown_submitter)))) = JStr ''2024999999''"
    unfolding e by blast+
  from f have f1: "status_code (fst (post_complaint sample_env sample_store
      req_short_submitter)) = 400"
    and f2: "snd (post_complaint sample_env sample_store req_short_submitter) = sample_store"
    by blast+
  show ?thesis by (intro conjI a b f1 f2 u v w h h' c d g1 g2)
qed

subsection \<open>Anonymous complaints\<close>

text \<open>
  C9, as the code has it. A submission whose \<^verbatim>\<open>anonymous\<close> member is true (any truthy
  value), with a title, a description, a valid category and a priority that is absent or
  valid, is answered with 201 when the statement reaches the database; the row it adds
  has a null computer number and is marked anonymous. The computer number of the request
  has no part in it: replacing it by any value \<open>v\<close> gives the same answer and the same
  store, so its format is not checked.
\<close>

theorem anonymous_submission_stores_no_submitter:
  assumes "truthy (req_body req ''anonymous'')"
    and "truthy (req_body req ''title'')"
    and "truthy (req_body req ''description'')"
    and "js_includes validCategories (req_body req ''category'')"
    and "js_includes validPriorities (with_default (req_body req ''priority'') (JStr ''medium''))"
    and "db_fault e = None"
  shows "status_code (fst (post_complaint e s req)) = 201
       \<and> length (complaints (snd (post_complaint e s req))) = Suc (length (complaints s))
       \<and> c_computer_number (last (complaints (snd (post_complaint e s req)))) = JNull
       \<and> c_anonymous (last (complaints (snd (post_complaint e s req))))
       \<and> post_complaint e s (req\<lparr>req_body := (req_body req)(''computer_number'' := v)\<rparr>)
           = post_complaint e s req"
proof -
  have cat: "truthy (req_body req ''category'')"
    using assms(4) by (rule js_includes_truthy) (simp add: validCategories_def)
  have anon: "with_default (req_body req ''anonymous'') (JBool False) = req_body req ''anonymous''"
    using assms(1) by (rule truthy_with_default)
  show ?thesis
    using assms cat by (simp add: post_complaint_def Let_def anon)
qed

text \<open>
  C9 as stated fails: this anonymous submission has a title, a description and a valid
  category, and a priority that is not one of the four; it is answered with 400 and the
  store is unchanged.
\<close>

theorem anonymous_bad_priority_counterexample:
  "req_body req_anonymous_bad_priority ''anonymous'' = JBool True
   \<and> truthy (req_body req_anonymous_bad_priority ''title'')
   \<and> truthy (req_body req_anonymous_bad_priority ''description'')
   \<and> js_includes validCategories (req_body req_anonymous_bad_priority ''category'')
   \<and> post_complaint sample_env sample_store req_anonymous_bad_priority
       = (\<lparr>status_code = 400,
           payload = JObj
             [(''success'', JBool False), (''message'', JStr ''Invalid priority provided''),
              (''valid_priorities'',
                 JArr [JStr ''low'', JStr ''medium'', JStr ''high'', JStr ''urgent''])]\<rparr>,
          sample_store)"
  by (simp add: post_complaint_def Let_def req_anonymous_bad_priority_def anonymous_request_def
      no_body_def with_default_def js_includes_def validCategories_def validPriorities_def
      failure_def respond_def)

text \<open>
  The amended C9 on the sample store: the request carries a computer number that is not
  a number at all, and the row is stored without it.
\<close>

theorem anonymous_submission_witness:
  "truthy (req_body req_anonymous ''anonymous'')
   \<and> req_body req_anonymous ''computer_number'' = JStr ''not a number''
   \<and> db_fault sample_env = None
   \<and> status_code (fst (post_complaint sample_env sample_store req_anonymous)) = 201
   \<and> c_computer_number
        (last (complaints (snd (post_complaint sample_env sample_store req_anonymous)))) = JNull"
proof -
  have a: "truthy (req_body req_anonymous ''anonymous'')"
    and b: "truthy (req_body req_anonymous ''title'')"
    and c: "truthy (req_body req_anonymous ''description'')"
    and d: "js_includes validCategories (req_body req_anonymous ''category'')"
    and e: "js_includes validPriorities
              (with_default (req_body req_anonymous ''priority'') (JStr ''medium''))"
    and g: "req_body req_anonymous ''computer_number'' = JStr ''not a number''"
    by (simp_all add: req_anonymous_def anonymous_request_def no_body_def with_default_def
        js_includes_def validCategories_def validPriorities_def)
  have f: "db_fault sample_env = None" by (simp add: sample_env_def)
  from a g f anonymous_submission_stores_no_submitter [OF a b c d e f, of sample_store]
  show ?thesis by blast
qed

subsection \<open>The complaint routes carry no middleware\<close>

lemma find_map_preserved:
  "(\<And>x. P (f x) = P x) \<Longrightarrow> find P (map f xs) = map_option f (find P xs)"
  by (induction xs) simp_all

lemma find_holds: "find P xs = Some x \<Longrightarrow> P x"
  by (induction xs) (auto split: if_splits)

lemma update_complaint_id [simp]:
  "c_complaint_id (update_complaint e st ar an pr c) = c_complaint_id c"
  by (simp add: update_complaint_def)

lemma find_updated_complaint:
  assumes "find_complaint s x = Some c"
  shows "find_complaint
           (s\<lparr>complaints := map (\<lambda>c. if id_is (c_complaint_id c) x
                                     then update_complaint e st ar an pr c else c) (complaints s)\<rparr>) x
         = Some (update_complaint e st ar an pr c)"
proof -
  have "id_is (c_complaint_id c) x"
    using assms find_holds [of "\<lambda>c. id_is (c_complaint_id c) x" "complaints s" c]
    by (simp add: find_complaint_def)
  moreover have "find (\<lambda>c. id_is (c_complaint_id c) x)
      (map (\<lambda>c. if id_is (c_complaint_id c) x then update_complaint e st ar an pr c else c)
         (complaints s))
    = map_option (\<lambda>c. if id_is (c_complaint_id c) x then update_complaint e st ar an pr c else c)
        (find (\<lambda>c. id_is (c_complaint_id c) x) (complaints s))"
    by (rule find_map_preserved) simp
  ultimately show ?thesis
    using assms by (simp add: find_complaint_def)
qed

lemma find_complaint_NaN [simp]: "find_complaint s NaN = None"
  by (simp add: find_complaint_def id_is_def find_None_iff)

lemma post_complaint_status:
  "status_code (fst (post_complaint e s req)) \<in> {201, 400, 500}"
  by (simp add: post_complaint_def Let_def post_complaint_failed_def
      post_complaint_internal_error_def split: option.splits)

lemma list_complaints_status:
  "status_code (fst (list_complaints e s req)) \<in> {200, 500}"
  by (simp add: list_complaints_def Let_def split: option.splits)

lemma get_complaint_status:
  "status_code (fst (get_complaint e s req i)) \<in> {200, 400, 404, 500}"
  by (simp add: get_complaint_def Let_def split: option.splits)

lemma put_complaint_status:
  "status_code (fst (put_complaint e s req i)) \<in> {200, 400, 404, 500}"
  by (simp add: put_complaint_def Let_def split: option.splits)

lemma complaint_routes_header_free:
  "post_complaint e s (req\<lparr>req_authorization := h\<rparr>) = post_complaint e s req"
  "list_complaints e s (req\<lparr>req_authorization := h\<rparr>) = list_complaints e s req"
  "get_complaint e s (req\<lparr>req_authorization := h\<rparr>) i = get_complaint e s req i"
  "put_complaint e s (req\<lparr>req_authorization := h\<rparr>) i = put_complaint e s req i"
  by (simp_all add: post_complaint_def list_complaints_def get_complaint_def put_complaint_def
      count_complaints_def Let_def split: option.splits)

lemma put_complaint_updates:
  assumes "db_fault e = None"
    and "find_complaint s (parseInt i) = Some c"
    and "js_includes validStatuses (req_body req ''status'')"
    and "js_includes validPriorities (req_body req ''priority'')"
    and "truthy (req_body req ''admin_response'')"
    and "truthy (req_body req ''admin_notes'')"
  shows "status_code (fst (put_complaint e s req i)) = 200
    \<and> find_complaint (snd (put_complaint e s req i)) (parseInt i)
        = Some (update_complaint e (req_body req ''status'') (req_body req ''admin_response'')
            (req_body req ''admin_notes'') (req_body req ''priority'') c)"
proof -
  have nan: "parseInt i \<noteq> NaN" using assms(2) by (cases "parseInt i = NaN") simp_all
  have ne: "i \<noteq> []" using nan by (auto simp add: parseInt_def strip_sign_def)
  have st: "truthy (req_body req ''status'')"
    using assms(3) by (rule js_includes_truthy) (simp add: validStatuses_def)
  show ?thesis
    using assms nan ne st
    by (simp add: put_complaint_def Let_def find_updated_complaint)
qed


lemma complaint_route_codes:
  "status_code (fst (app PostComplaint e s req)) \<notin> {401, 403}"
  "status_code (fst (app GetComplaints e s req)) \<notin> {401, 403}"
  "status_code (fst (app (GetComplaint i) e s req)) \<notin> {401, 403}"
  "status_code (fst (app (PutComplaint i) e s req)) \<notin> {401, 403}"
proof -
  show "status_code (fst (app PostComplaint e s req)) \<notin> {401, 403}"
    using post_complaint_status [of e s req] by auto
  show "status_code (fst (app GetComplaints e s req)) \<notin> {401, 403}"
    using list_complaints_status [of e s req] by auto
  show "status_code (fst (app (GetComplaint i) e s req)) \<notin> {401, 403}"
    using get_complaint_status [of e s req i] by auto
  show "status_code (fst (app (PutComplaint i) e s req)) \<notin> {401, 403}"
    using put_complaint_status [of e s req i] by auto
qed

lemma complaint_route_header_free:
  "app PostComplaint e s (req\<lparr>req_authorization := h\<rparr>) = app PostComplaint e s req"
  "app GetComplaints e s (req\<lparr>req_authorization := h\<rparr>) = app GetComplaints e s req"
  "app (GetComplaint i) e s (req\<lparr>req_authorization := h\<rparr>) = app (GetComplaint i) e s req"
  "app (PutComplaint i) e s (req\<lparr>req_authorization := h\<rparr>) = app (PutComplaint i) e s req"
  by (simp_all add: complaint_routes_header_free)

lemma put_complaint_sets_fields:
  assumes "db_fault e = None \<and> find_complaint s (parseInt i) = Some c
        \<and> js_includes validStatuses (req_body req ''status'')
        \<and> js_includes validPriorities (req_body req ''priority'')
        \<and> truthy (req_body req ''admin_response'')
        \<and> truthy (req_body req ''admin_notes'')"
  shows "status_code (fst (app (PutComplaint i) e s (req\<lparr>req_authorization := None\<rparr>))) = 200
       \<and> (\<exists>c'. find_complaint
                  (snd (app (PutComplaint i) e s (req\<lparr>req_authorization := None\<rparr>)))
                  (parseInt i) = Some c'
              \<and> c_status c' = req_body req ''status''
              \<and> c_priority c' = req_body req ''priority''
              \<and> c_admin_response c' = req_body req ''admin_response''
              \<and> c_admin_notes c' = req_body req ''admin_notes'')"
proof -
  from assms have h: "db_fault e = None" "find_complaint s (parseInt i) = Some c"
        "js_includes validStatuses (req_body req ''status'')"
        "js_includes validPriorities (req_body req ''priority'')"
        "truthy (req_body req ''admin_response'')"
        "truthy (req_body req ''admin_notes'')"
    by blast+
  have st: "truthy (req_body req ''status'')"
    using h(3) by (rule js_includes_truthy) (simp add: validStatuses_def)
  have pr: "truthy (req_body req ''priority'')"
    using h(4) by (rule js_includes_truthy) (simp add: validPriorities_def)
  let ?c' = "update_complaint e (req_body req ''status'') (req_body req ''admin_response'')
            (req_body req ''admin_notes'') (req_body req ''priority'') c"
  have fields: "c_status ?c' = req_body req ''status''" "c_priority ?c' = req_body req ''priority''"
    "c_admin_response ?c' = req_body req ''admin_response''"
    "c_admin_notes ?c' = req_body req ''admin_notes''"
    using st pr h(5,6) by (simp_all add: update_complaint_def)
  have same: "app (PutComplaint i) e s (req\<lparr>req_authorization := None\<rparr>) = put_complaint e s req i"
    by (simp add: complaint_routes_header_free)
  show ?thesis
    unfolding same using put_complaint_updates [OF h] fields by blast
qed

text \<open>
  C10. The four complaint routes are mounted without \<^verbatim>\<open>authenticate\<close> or
  \<^verbatim>\<open>authorize\<close>. None of them answers 401 or 403, whatever the request; each
  gives the same answer and the same store when the Authorization header is replaced by
  any other header or removed. In particular a request without a header that names an
  existing complaint, a valid status, a valid priority, an admin response and admin
  notes is answered with 200, and the complaint then carries these four values.
\<close>

theorem complaint_routes_need_no_credentials:
  "status_code (fst (app PostComplaint e s req)) \<notin> {401, 403}
   \<and> status_code (fst (app GetComplaints e s req)) \<notin> {401, 403}
   \<and> status_code (fst (app (GetComplaint i) e s req)) \<notin> {401, 403}
   \<and> status_code (fst (app (PutComplaint i) e s req)) \<notin> {401, 403}
   \<and> app PostComplaint e s (req\<lparr>req_authorization := h\<rparr>) = app PostComplaint e s req
   \<and> app GetComplaints e s (req\<lparr>req_authorization := h\<rparr>) = app GetComplaints e s req
   \<and> app (GetComplaint i) e s (req\<lparr>req_authorization := h\<rparr>) = app (GetComplaint i) e s req
   \<and> app (PutComplaint i) e s (req\<lparr>req_authorization := h\<rparr>) = app (PutComplaint i) e s req
   \<and> (db_fault e = None \<and> find_complaint s (parseInt i) = Some c
        \<and> js_includes validStatuses (req_body req ''status'')
        \<and> js_includes validPriorities (req_body req ''priority'')
        \<and> truthy (req_body req ''admin_response'')
        \<and> truthy (req_body req ''admin_notes'') \<longrightarrow>
       status_code (fst (app (PutComplaint i) e s (req\<lparr>req_authorization := None\<rparr>))) = 200
       \<and> (\<exists>c'. find_complaint
                  (snd (app (PutComplaint i) e s (req\<lparr>req_authorization := None\<rparr>)))
                  (parseInt i) = Some c'
              \<and> c_status c' = req_body req ''status''
              \<and> c_priority c' = req_body req ''priority''
              \<and> c_admin_response c' = req_body req ''admin_response''
              \<and> c_admin_notes c' = req_body req ''admin_notes''))"
proof -
  have update: "db_fault e = None \<and> find_complaint s (parseInt i) = Some c
        \<and> js_includes validStatuses (req_body req ''status'')
        \<and> js_includes validPriorities (req_body req ''priority'')
        \<and> truthy (req_body req ''admin_response'')
        \<and> truthy (req_body req ''admin_notes'') \<longrightarrow>
       status_code (fst (app (PutComplaint i) e s (req\<lparr>req_authorization := None\<rparr>))) = 200
       \<and> (\<exists>c'. find_complaint
                  (snd (app (PutComplaint i) e s (req\<lparr>req_authorization := None\<rparr>)))
                  (parseInt i) = Some c'
              \<and> c_status c' = req_body req ''status''
              \<and> c_priority c' = req_body req ''priority''
              \<and> c_admin_response c' = req_body req ''admin_response''
              \<and> c_admin_notes c' = req_body req ''admin_notes'')"
    by (rule impI) (rule put_complaint_sets_fields)
  show ?thesis
    by (intro conjI complaint_route_codes complaint_route_header_free update)
qed

text \<open>
  C10 on the sample store: a request without a header resolves complaint 1 and sets its
  priority, response and notes.
\<close>

theorem complaint_routes_witness:
  "db_fault sample_env = None
   \<and> find_complaint sample_store (parseInt ''1'') = Some sample_complaint
   \<and> js_includes validStatuses (req_body req_close_complaint ''status'')
   \<and> js_includes validPriorities (req_body req_close_complaint ''priority'')
   \<and> truthy (req_body req_close_complaint ''admin_response'')
   \<and> truthy (req_body req_close_complaint ''admin_notes'')
   \<and> req_authorization req_close_complaint = None
   \<and> status_code (fst (app (PutComplaint ''1'') sample_env sample_store req_close_complaint)) = 200
   \<and> (\<exists>c'. find_complaint
              (snd (app (PutComplaint ''1'') sample_env sample_store req_close_complaint))
              (parseInt ''1'') = Some c'
          \<and> c_status c' = JStr ''resolved'' \<and> c_priority c' = JStr ''low''
          \<and> c_admin_response c' = JStr ''Fixed'' \<and> c_admin_notes c' = JStr ''none'')"
proof -
  have a: "db_fault sample_env = None" by (simp add: sample_env_def)
  have p: "parseInt ''1'' = Fin 1"
    by (simp add: parseInt_def strip_sign_def is_space_def dec_digit_def)
  have b: "find_complaint sample_store (parseInt ''1'') = Some sample_complaint"
    by (simp add: p find_complaint_def sample_store_def sample_complaint_def id_is_def)
  have c: "js_includes validStatuses (req_body req_close_complaint ''status'')"
    and d: "js_includes validPriorities (req_body req_close_complaint ''priority'')"
    and f: "truthy (req_body req_close_complaint ''admin_response'')"
    and g: "truthy (req_body req_close_complaint ''admin_notes'')"
    and v: "req_body req_close_complaint ''status'' = JStr ''resolved''"
      "req_body req_close_complaint ''priority'' = JStr ''low''"
      "req_body req_close_complaint ''admin_response'' = JStr ''Fixed''"
      "req_body req_close_complaint ''admin_notes'' = JStr ''none''"
    and n: "req_close_complaint\<lparr>req_authorization := None\<rparr> = req_close_complaint"
      "req_authorization req_close_complaint = None"
    by (simp_all add: req_close_complaint_def anonymous_request_def no_body_def js_includes_def
        validStatuses_def validPriorities_def)
  from a b c d f g n
    complaint_routes_need_no_credentials
      [of sample_env sample_store req_close_complaint "''1''" None sample_complaint]
  show ?thesis unfolding v n by blast
qed

subsection \<open>Pagination of the listing endpoints\<close>

lemma row_count_ok_positive:
  "0 < n \<Longrightarrow> sql_row_count_ok (Fin n)"
  by (simp add: sql_row_count_ok_def)

lemma ceil_quotient_positive:
  "0 < d \<Longrightarrow> ceil_quotient c (Fin d) = Fin \<lceil>real c / real_of_int d\<rceil>"
  by simp

lemma list_complaints_total_pages:
  assumes "parseInt_param (req_query req ''limit'') 10 = Fin n" and "0 < n"
  shows "get_member (payload (fst (list_complaints e s req))) ''pagination'' \<noteq> JUndefined \<longrightarrow>
         get_member (get_member (payload (fst (list_complaints e s req))) ''pagination'')
           ''total_pages'' = JNum \<lceil>real (count_complaints s req) / real_of_int n\<rceil>"
  using assms
  by (simp add: list_complaints_def Let_def split: option.splits)

lemma list_users_total_pages:
  assumes "parseInt_param (req_query req ''limit'') 10 = Fin n" and "0 < n"
  shows "get_member (payload (fst (list_users u e s req))) ''pagination'' \<noteq> JUndefined \<longrightarrow>
         get_member (get_member (payload (fst (list_users u e s req))) ''pagination'')
           ''total_pages'' = JNum \<lceil>real (count_users e s req) / real_of_int n\<rceil>"
  using assms
  by (simp add: list_users_def Let_def split: option.splits)

lemma list_meetings_total_pages:
  assumes "parseInt_param (req_query req ''limit'') 10 = Fin n" and "0 < n"
  shows "get_member (payload (fst (list_meetings u e s req))) ''pagination'' \<noteq> JUndefined \<longrightarrow>
         get_member (get_member (payload (fst (list_meetings u e s req))) ''pagination'')
           ''total_pages'' = JNum \<lceil>real (count_meetings u s req) / real_of_int n\<rceil>"
  using assms
  by (simp add: list_meetings_def Let_def split: option.splits)

lemma authenticate_ends_without_pagination:
  "authenticate e s req = Inl r \<Longrightarrow> get_member (payload r) ''pagination'' = JUndefined"
  by (auto simp add: authenticate_def split: option.splits if_splits verify_result.splits)

lemma authorize_ends_without_pagination:
  "authorize roles u = Some r \<Longrightarrow> get_member (payload r) ''pagination'' = JUndefined"
  by (auto simp add: authorize_def split: option.splits if_splits)

lemma protected_cases:
  "(\<exists>r. authenticate e s req = Inl r \<and> protected roles h e s req = (r, s))
   \<or> (\<exists>u r allowed. authenticate e s req = Inr u \<and> roles = Some allowed
         \<and> authorize allowed (Some u) = Some r \<and> protected roles h e s req = (r, s))
   \<or> (\<exists>u. authenticate e s req = Inr u \<and> protected roles h e s req = h u e s req)"
  by (auto simp add: protected_def split: sum.splits option.splits)


lemma offset_ok:
  assumes "1 \<le> p" and "0 < n"
  shows "sql_row_count_ok (js_mul (js_minus1 (Fin p)) (Fin n))"
proof -
  have "0 \<le> (p - 1) * n" using assms by simp
  then show ?thesis using assms by (simp add: js_mul_def sql_row_count_ok_def)
qed

lemma list_complaints_answers:
  assumes "parseInt_param (req_query req ''limit'') 10 = Fin n" and "0 < n"
    and "db_fault e = None" and "parseInt_param (req_query req ''page'') 1 = Fin p" and "1 \<le> p"
  shows "status_code (fst (list_complaints e s req)) = 200
    \<and> pagination (list_complaints e s req) \<noteq> JUndefined"
  using assms offset_ok [OF assms(5,2)]
  by (simp add: list_complaints_def Let_def pagination_def row_count_ok_positive)

lemma list_users_answers:
  assumes "parseInt_param (req_query req ''limit'') 10 = Fin n" and "0 < n"
    and "db_fault e = None" and "parseInt_param (req_query req ''page'') 1 = Fin p" and "1 \<le> p"
  shows "status_code (fst (list_users u e s req)) = 200
    \<and> pagination (list_users u e s req) \<noteq> JUndefined"
  using assms offset_ok [OF assms(5,2)]
  by (simp add: list_users_def Let_def pagination_def row_count_ok_positive)

lemma list_meetings_answers:
  assumes "parseInt_param (req_query req ''limit'') 10 = Fin n" and "0 < n"
    and "db_fault e = None" and "parseInt_param (req_query req ''page'') 1 = Fin p" and "1 \<le> p"
  shows "status_code (fst (list_meetings u e s req)) = 200
    \<and> pagination (list_meetings u e s req) \<noteq> JUndefined"
  using assms offset_ok [OF assms(5,2)]
  by (simp add: list_meetings_def Let_def pagination_def row_count_ok_positive)

lemma authenticated_db_up: "authenticate e s req = Inr u \<Longrightarrow> db_fault e = None"
  by (auto simp add: authenticate_def split: option.splits if_splits verify_result.splits)

lemma protected_passes:
  "authenticate e s req = Inr u \<Longrightarrow> protected None h e s req = h u e s req"
  by (simp add: protected_def)

lemma admin_passes:
  "authenticate e s req = Inr u \<Longrightarrow> u_role u = ''admin''
    \<Longrightarrow> protected (Some [''admin'']) h e s req = h u e s req"
  by (simp add: protected_def authorize_def)

lemma protected_pagination:
  assumes "pagination (protected roles h e s req) \<noteq> JUndefined"
  shows "\<exists>u. authenticate e s req = Inr u \<and> protected roles h e s req = h u e s req"
  using protected_cases [of e s req roles h] assms
    authenticate_ends_without_pagination [of e s req]
    authorize_ends_without_pagination
  by (auto simp add: pagination_def)

text \<open>
  C1. Let the \<^verbatim>\<open>limit\<close> parameter of a listing request parse to a positive integer
  \<open>n\<close>. Whenever the answer of \<^verbatim>\<open>GET /complaints\<close>, \<^verbatim>\<open>GET /users\<close> or
  \<^verbatim>\<open>GET /meetings\<close> carries a pagination object, its \<^verbatim>\<open>total_pages\<close> is the
  ceiling of the count of the matching rows divided by \<open>n\<close>; for meetings the rows are
  those of the authenticated caller. The answer does carry one, with status 200, when
  the page parameter parses to an integer from 1 on and, for users and meetings, the
  caller is authenticated (as an administrator for users); for complaints the database
  has to be reachable, which authentication implies for the other two.
\<close>

theorem total_pages_is_ceiling_of_count_over_limit:
  assumes "parseInt_param (req_query req ''limit'') 10 = Fin n" and "0 < n"
  shows "(pagination (app GetComplaints e s req) \<noteq> JUndefined \<longrightarrow>
            get_member (pagination (app GetComplaints e s req)) ''total_pages''
              = JNum \<lceil>real (count_complaints s req) / real_of_int n\<rceil>)
       \<and> (pagination (app GetUsers e s req) \<noteq> JUndefined \<longrightarrow>
            get_member (pagination (app GetUsers e s req)) ''total_pages''
              = JNum \<lceil>real (count_users e s req) / real_of_int n\<rceil>)
       \<and> (\<forall>u. authenticate e s req = Inr u
              \<and> pagination (app GetMeetings e s req) \<noteq> JUndefined \<longrightarrow>
            get_member (pagination (app GetMeetings e s req)) ''total_pages''
              = JNum \<lceil>real (count_meetings u s req) / real_of_int n\<rceil>)
       \<and> (\<forall>p. db_fault e = None \<and> parseInt_param (req_query req ''page'') 1 = Fin p \<and> 1 \<le> p
              \<longrightarrow> status_code (fst (app GetComplaints e s req)) = 200
                  \<and> pagination (app GetComplaints e s req) \<noteq> JUndefined)
       \<and> (\<forall>p u. authenticate e s req = Inr u \<and> u_role u = ''admin''
              \<and> parseInt_param (req_query req ''page'') 1 = Fin p \<and> 1 \<le> p
              \<longrightarrow> status_code (fst (app GetUsers e s req)) = 200
                  \<and> pagination (app GetUsers e s req) \<noteq> JUndefined)
       \<and> (\<forall>p u. authenticate e s req = Inr u
              \<and> parseInt_param (req_query req ''page'') 1 = Fin p \<and> 1 \<le> p
              \<longrightarrow> status_code (fst (app GetMeetings e s req)) = 200
                  \<and> pagination (app GetMeetings e s req) \<noteq> JUndefined)"
proof (intro conjI allI impI)
  show "get_member (pagination (app GetComplaints e s req)) ''total_pages''
          = JNum \<lceil>real (count_complaints s req) / real_of_int n\<rceil>"
    if "pagination (app GetComplaints e s req) \<noteq> JUndefined"
    using that list_complaints_total_pages [OF assms, of e s] by (simp add: pagination_def)
next
  assume present: "pagination (app GetUsers e s req) \<noteq> JUndefined"
  then obtain u where "app GetUsers e s req = list_users u e s req"
    using protected_pagination [of "Some [''admin'']" list_users e s req] by auto
  then show "get_member (pagination (app GetUsers e s req)) ''total_pages''
          = JNum \<lceil>real (count_users e s req) / real_of_int n\<rceil>"
    using present list_users_total_pages [OF assms, of u e s] by (simp add: pagination_def)
next
  fix u
  assume h: "authenticate e s req = Inr u \<and> pagination (app GetMeetings e s req) \<noteq> JUndefined"
  then have "app GetMeetings e s req = list_meetings u e s req"
    by (simp add: protected_passes)
  then show "get_member (pagination (app GetMeetings e s req)) ''total_pages''
          = JNum \<lceil>real (count_meetings u s req) / real_of_int n\<rceil>"
    using h list_meetings_total_pages [OF assms, of u e s] by (simp add: pagination_def)
next
  fix p
  assume h: "db_fault e = None \<and> parseInt_param (req_query req ''page'') 1 = Fin p \<and> 1 \<le> p"
  then have both: "status_code (fst (list_complaints e s req)) = 200
    \<and> pagination (list_complaints e s req) \<noteq> JUndefined"
    using list_complaints_answers [OF assms, of e p s] by blast
  from both show "status_code (fst (app GetComplaints e s req)) = 200" by simp
  from both show "pagination (app GetComplaints e s req) \<noteq> JUndefined" by simp
next
  fix p u
  assume h: "authenticate e s req = Inr u \<and> u_role u = ''admin''
              \<and> parseInt_param (req_query req ''page'') 1 = Fin p \<and> 1 \<le> p"
  then have eq: "app GetUsers e s req = list_users u e s req"
    by (simp add: admin_passes)
  from h have "db_fault e = None" using authenticated_db_up by blast
  then have both: "status_code (fst (list_users u e s req)) = 200
    \<and> pagination (list_users u e s req) \<noteq> JUndefined"
    using h list_users_answers [OF assms, of e p u s] by blast
  from both show "status_code (fst (app GetUsers e s req)) = 200" unfolding eq by blast
  from both show "pagination (app GetUsers e s req) \<noteq> JUndefined" unfolding eq by blast
next
  fix p u
  assume h: "authenticate e s req = Inr u
              \<and> parseInt_param (req_query req ''page'') 1 = Fin p \<and> 1 \<le> p"
  then have eq: "app GetMeetings e s req = list_meetings u e s req"
    by (simp add: protected_passes)
  from h have "db_fault e = None" using authenticated_db_up by blast
  then have both: "status_code (fst (list_meetings u e s req)) = 200
    \<and> pagination (list_meetings u e s req) \<noteq> JUndefined"
    using h list_meetings_answers [OF assms, of e p u s] by blast
  from both show "status_code (fst (app GetMeetings e s req)) = 200" unfolding eq by blast
  from both show "pagination (app GetMeetings e s req) \<noteq> JUndefined" unfolding eq by blast
qed


lemma sample_authenticate:
  "authenticate sample_env sample_store (bearer_request ''signed:2019000001'' q b) = Inr sample_admin"
  "authenticate sample_env sample_store (bearer_request ''signed:2019000002'' q b) = Inr sample_student"
  "authenticate sample_env sample_store (bearer_request ''signed:2019000004'' q b) = Inr sample_outsider"
  by (simp_all add: authenticate_def bearer_request_def bearer_token_def sample_env_def
      find_user_def sample_store_def sample_claims_def sample_admin_def sample_student_def
      sample_lecturer_def sample_outsider_def)

lemma sample_limit_three:
  "parseInt_param (req_query (anonymous_request (Some ''3'') b) ''limit'') 10 = Fin 3"
  "parseInt_param (req_query (bearer_request t (Some ''3'') b) ''limit'') 10 = Fin 3"
  "parseInt_param (req_query (anonymous_request q b) ''page'') 1 = Fin 1"
  "parseInt_param (req_query (bearer_request t q b) ''page'') 1 = Fin 1"
  by (simp_all add: parseInt_param_def anonymous_request_def bearer_request_def parseInt_def
      strip_sign_def is_space_def dec_digit_def)

text \<open>
  C1 on the sample store with three rows per page: one complaint on one page, four users
  on two pages, and the one meeting of the first student on one page.
\<close>

theorem total_pages_witness:
  "parseInt_param (req_query req_admin_three_per_page ''limit'') 10 = Fin 3
   \<and> count_complaints sample_store req_admin_three_per_page = 1
   \<and> get_member (pagination (app GetComplaints sample_env sample_store req_admin_three_per_page))
        ''total_pages'' = JNum 1
   \<and> count_users sample_env sample_store req_admin_three_per_page = 4
   \<and> get_member (pagination (app GetUsers sample_env sample_store req_admin_three_per_page))
        ''total_pages'' = JNum 2
   \<and> parseInt_param (req_query req_student_three_per_page ''limit'') 10 = Fin 3
   \<and> authenticate sample_env sample_store req_student_three_per_page = Inr sample_student
   \<and> count_meetings sample_student sample_store req_student_three_per_page = 1
   \<and> get_member (pagination (app GetMeetings sample_env sample_store req_student_three_per_page))
        ''total_pages'' = JNum 1"
proof -
  have la: "parseInt_param (req_query req_admin_three_per_page ''limit'') 10 = Fin 3"
    and ls: "parseInt_param (req_query req_student_three_per_page ''limit'') 10 = Fin 3"
    and pa: "parseInt_param (req_query req_admin_three_per_page ''page'') 1 = Fin 1"
    and ps: "parseInt_param (req_query req_student_three_per_page ''page'') 1 = Fin 1"
    by (simp_all add: req_admin_three_per_page_def req_student_three_per_page_def
        sample_limit_three)
  have pos: "(0::int) < 3" and one: "(1::int) \<le> 1" by simp_all
  have db: "db_fault sample_env = None" by (simp add: sample_env_def)
  have aa: "authenticate sample_env sample_store req_admin_three_per_page = Inr sample_admin"
    and as: "authenticate sample_env sample_store req_student_three_per_page = Inr sample_student"
    by (simp_all add: req_admin_three_per_page_def req_student_three_per_page_def
        sample_authenticate)
  have role: "u_role sample_admin = ''admin''" by (simp add: sample_admin_def)
  have cc: "count_complaints sample_store req_admin_three_per_page = 1"
    by (simp add: count_complaints_def req_admin_three_per_page_def bearer_request_def
        complaint_matches_def column_filter_def sample_store_def)
  have cu: "count_users sample_env sample_store req_admin_three_per_page = 4"
    by (simp add: count_users_def req_admin_three_per_page_def bearer_request_def
        user_matches_def column_filter_def sample_store_def)
  have cm: "count_meetings sample_student sample_store req_student_three_per_page = 1"
    by (simp add: count_meetings_def req_student_three_per_page_def bearer_request_def
        meeting_matches_def column_filter_def sample_store_def sample_meeting_def
        sample_student_def)
  note admin = total_pages_is_ceiling_of_count_over_limit
    [OF la pos, of sample_env sample_store]
  note student = total_pages_is_ceiling_of_count_over_limit
    [OF ls pos, of sample_env sample_store]
  have c1: "get_member (pagination (app GetComplaints sample_env sample_store
      req_admin_three_per_page)) ''total_pages'' = JNum \<lceil>real 1 / real_of_int 3\<rceil>"
    using admin db pa one unfolding cc by blast
  have u1: "get_member (pagination (app GetUsers sample_env sample_store
      req_admin_three_per_page)) ''total_pages'' = JNum \<lceil>real 4 / real_of_int 3\<rceil>"
    using admin aa role pa one unfolding cu by blast
  have "get_member (pagination (app GetMeetings sample_env sample_store
      req_student_three_per_page)) ''total_pages''
      = JNum \<lceil>real (count_meetings sample_student sample_store req_student_three_per_page)
          / real_of_int 3\<rceil>"
    using student as ps one by blast
  then have m1: "get_member (pagination (app GetMeetings sample_env sample_store
      req_student_three_per_page)) ''total_pages'' = JNum \<lceil>real 1 / real_of_int 3\<rceil>"
    unfolding cm .
  have v: "\<lceil>real 1 / real_of_int 3\<rceil> = 1" "\<lceil>real 4 / real_of_int 3\<rceil> = 2"
    by (simp_all add: ceiling_eq_iff)
  note c2 = c1 [unfolded v] and u2 = u1 [unfolded v] and m2 = m1 [unfolded v]
  show ?thesis by (intro conjI la cc c2 cu u2 ls as cm m2)
qed

subsection \<open>The flags of the pagination object\<close>

text \<open>
  C8 holds for two of the three listings and fails for the third. The whole answer of
  \<^verbatim>\<open>GET /meetings\<close> for the first student of the sample store is the one below: its
  pagination object has the current page, the total pages, the total and the limit, and
  neither \<^verbatim>\<open>has_next\<close> nor \<^verbatim>\<open>has_prev\<close>.
\<close>

theorem meetings_pagination_has_no_flags:
  "app GetMeetings sample_env sample_store req_student_meetings
     = (\<lparr>status_code = 200,
         payload = JObj
           [(''success'', JBool True),
            (''pagination'', JObj
               [(''current_page'', JNum 1), (''total_pages'', JNum 1),
                (''total_meetings'', JNum 1), (''limit'', JNum 10)])]\<rparr>,
        sample_store)"
proof -
  have a: "authenticate sample_env sample_store req_student_meetings = Inr sample_student"
    by (simp add: req_student_meetings_def sample_authenticate)
  have q: "req_query req_student_meetings = (\<lambda>k. None)"
    by (simp add: req_student_meetings_def bearer_request_def)
  have c: "count_meetings sample_student sample_store req_student_meetings = 1"
    by (simp add: count_meetings_def q meeting_matches_def column_filter_def sample_store_def
        sample_meeting_def sample_student_def)
  have db: "db_fault sample_env = None" by (simp add: sample_env_def)
  have "list_meetings sample_student sample_env sample_store req_student_meetings
     = (\<lparr>status_code = 200,
         payload = JObj
           [(''success'', JBool True),
            (''pagination'', JObj
               [(''current_page'', JNum 1), (''total_pages'', JNum 1),
                (''total_meetings'', JNum 1), (''limit'', JNum 10)])]\<rparr>,
        sample_store)"
    by (simp add: list_meetings_def Let_def c db q parseInt_param_def js_mul_def
        sql_row_count_ok_def respond_def ceiling_eq_iff)
  then show ?thesis by (simp add: protected_passes [OF a])
qed


text \<open>
  The listings of complaints and of users do send the flags: with a positive limit, an
  answer that carries a pagination object has \<^verbatim>\<open>has_next\<close> true exactly when the
  current page is below the total pages and \<^verbatim>\<open>has_prev\<close> true exactly when the
  current page is above 1. The listing of meetings never sends them.
\<close>

lemma accepted_page_is_positive:
  assumes "0 < n" and "sql_row_count_ok (js_mul (js_minus1 page) (Fin n))"
  shows "\<exists>p. page = Fin p \<and> 1 \<le> p"
proof (cases page)
  case (Fin p)
  have "1 \<le> p"
  proof (rule ccontr)
    assume "\<not> 1 \<le> p"
    then have "(p - 1) * n < 0" "p \<noteq> 1" "n \<noteq> 0"
      using assms(1) by (simp_all add: mult_less_0_iff)
    then show False using assms(2) Fin by (simp add: js_mul_def sql_row_count_ok_def)
  qed
  then show ?thesis using Fin by simp
qed (use assms in \<open>simp_all add: js_mul_def sql_row_count_ok_def\<close>)

lemma list_complaints_flags:
  assumes "parseInt_param (req_query req ''limit'') 10 = Fin n" and "0 < n"
    and "pagination (list_complaints e s req) \<noteq> JUndefined"
  shows "\<exists>cp tp. get_member (pagination (list_complaints e s req)) ''current_page'' = JNum cp
           \<and> get_member (pagination (list_complaints e s req)) ''total_pages'' = JNum tp
           \<and> get_member (pagination (list_complaints e s req)) ''has_next'' = JBool (cp < tp)
           \<and> get_member (pagination (list_complaints e s req)) ''has_prev'' = JBool (1 < cp)"
proof -
  from assms have ok: "db_fault e = None"
    "sql_row_count_ok (js_mul (js_minus1 (parseInt_param (req_query req ''page'') 1)) (Fin n))"
    by (auto simp add: list_complaints_def Let_def pagination_def split: option.splits if_splits)
  from accepted_page_is_positive [OF assms(2) ok(2)]
  obtain p where p: "parseInt_param (req_query req ''page'') 1 = Fin p" "1 \<le> p" by blast
  show ?thesis
    using assms(1,2) ok p
    by (simp add: list_complaints_def Let_def pagination_def row_count_ok_positive)
qed

lemma list_users_flags:
  assumes "parseInt_param (req_query req ''limit'') 10 = Fin n" and "0 < n"
    and "pagination (list_users u e s req) \<noteq> JUndefined"
  shows "\<exists>cp tp. get_member (pagination (list_users u e s req)) ''current_page'' = JNum cp
           \<and> get_member (pagination (list_users u e s req)) ''total_pages'' = JNum tp
           \<and> get_member (pagination (list_users u e s req)) ''has_next'' = JBool (cp < tp)
           \<and> get_member (pagination (list_users u e s req)) ''has_prev'' = JBool (1 < cp)"
proof -
  from assms have ok: "db_fault e = None"
    "sql_row_count_ok (js_mul (js_minus1 (parseInt_param (req_query req ''page'') 1)) (Fin n))"
    by (auto simp add: list_users_def Let_def pagination_def split: option.splits if_splits)
  from accepted_page_is_positive [OF assms(2) ok(2)]
  obtain p where p: "parseInt_param (req_query req ''page'') 1 = Fin p" "1 \<le> p" by blast
  show ?thesis
    using assms(1,2) ok p
    by (simp add: list_users_def Let_def pagination_def row_count_ok_positive)
qed

lemma list_meetings_has_no_flags:
  "get_member (pagination (list_meetings u e s req)) ''has_next'' = JUndefined
   \<and> get_member (pagination (list_meetings u e s req)) ''has_prev'' = JUndefined"
  by (simp add: list_meetings_def Let_def pagination_def split: option.splits)

subsection \<open>Administrators and their own account\<close>

lemma authenticated_user_is_stored:
  assumes "authenticate e s req = Inr u"
  shows "find_user s (JStr (u_computer_number u)) = Some u"
proof -
  from assms obtain x where x: "find_user s (JStr x) = Some u"
    by (auto simp add: authenticate_def split: option.splits if_splits verify_result.splits)
  then have "JStr (u_computer_number u) = JStr x"
    using find_holds [of "\<lambda>u. JStr (u_computer_number u) = JStr x" "users s" u]
    by (simp add: find_user_def)
  then show ?thesis using x by simp
qed

lemma put_own_role_refused:
  assumes "find_user s (JStr (u_computer_number u)) = Some u" and "db_fault e = None"
    and "u_role u = ''admin''" and "req_body req ''role'' \<noteq> JStr ''admin''"
  shows "put_user_role (u_computer_number u) u e s req
           = (fst (put_user_role (u_computer_number u) u e s req), s)
         \<and> status_code (fst (put_user_role (u_computer_number u) u e s req)) = 400"
  using assms by (simp add: put_user_role_def Let_def)

lemma delete_self_refused:
  "delete_user (u_computer_number u) u e s req
     = (failure 400 ''You cannot delete your own account''
          [(''error_code'', JStr ''CANNOT_DELETE_SELF'')], s)"
  by (simp add: delete_user_def)

text \<open>
  C2. Let the caller be authenticated as an administrator. A role update that targets
  the caller's own computer number with any role other than \<^verbatim>\<open>admin\<close> (a missing
  role included) is answered with 400, the store is unchanged and the caller's row still
  has the role \<^verbatim>\<open>admin\<close>. A delete that targets the caller's own computer number is
  answered with 400, the store is unchanged and the caller's row is still there.
\<close>

theorem admin_cannot_demote_or_delete_self:
  assumes "authenticate e s req = Inr u" and "u_role u = ''admin''"
  shows "(req_body req ''role'' \<noteq> JStr ''admin'' \<longrightarrow>
            status_code (fst (app (PutUserRole (u_computer_number u)) e s req)) = 400
            \<and> snd (app (PutUserRole (u_computer_number u)) e s req) = s
            \<and> map_option u_role
                 (find_user (snd (app (PutUserRole (u_computer_number u)) e s req))
                    (JStr (u_computer_number u))) = Some ''admin'')
       \<and> status_code (fst (app (DeleteUser (u_computer_number u)) e s req)) = 400
       \<and> snd (app (DeleteUser (u_computer_number u)) e s req) = s
       \<and> find_user (snd (app (DeleteUser (u_computer_number u)) e s req))
            (JStr (u_computer_number u)) = Some u"
proof -
  note stored = authenticated_user_is_stored [OF assms(1)]
  note up = authenticated_db_up [OF assms(1)]
  have del: "app (DeleteUser (u_computer_number u)) e s req
      = delete_user (u_computer_number u) u e s req"
    by (simp add: admin_passes [OF assms])
  have d1: "status_code (fst (app (DeleteUser (u_computer_number u)) e s req)) = 400"
    unfolding del delete_self_refused by simp
  have d2: "snd (app (DeleteUser (u_computer_number u)) e s req) = s"
    unfolding del delete_self_refused by simp
  have d3: "find_user (snd (app (DeleteUser (u_computer_number u)) e s req))
            (JStr (u_computer_number u)) = Some u"
    unfolding d2 by (rule stored)
  have put: "app (PutUserRole (u_computer_number u)) e s req
      = put_user_role (u_computer_number u) u e s req"
    by (simp add: admin_passes [OF assms])
  have p: "status_code (fst (app (PutUserRole (u_computer_number u)) e s req)) = 400
            \<and> snd (app (PutUserRole (u_computer_number u)) e s req) = s
            \<and> map_option u_role
                 (find_user (snd (app (PutUserRole (u_computer_number u)) e s req))
                    (JStr (u_computer_number u))) = Some ''admin''"
    if role: "req_body req ''role'' \<noteq> JStr ''admin''"
  proof -
    note refused = put_own_role_refused [OF stored up assms(2) role]
    have p1: "status_code (fst (app (PutUserRole (u_computer_number u)) e s req)) = 400"
      unfolding put using refused by blast
    have p2: "snd (app (PutUserRole (u_computer_number u)) e s req) = s"
      unfolding put using refused by (metis snd_conv)
    have p3: "map_option u_role
                 (find_user (snd (app (PutUserRole (u_computer_number u)) e s req))
                    (JStr (u_computer_number u))) = Some ''admin''"
      unfolding p2 stored using assms(2) by simp
    show ?thesis by (intro conjI p1 p2 p3)
  qed
  then have p': "req_body req ''role'' \<noteq> JStr ''admin'' \<longrightarrow>
            status_code (fst (app (PutUserRole (u_computer_number u)) e s req)) = 400
            \<and> snd (app (PutUserRole (u_computer_number u)) e s req) = s
            \<and> map_option u_role
                 (find_user (snd (app (PutUserRole (u_computer_number u)) e s req))
                    (JStr (u_computer_number u))) = Some ''admin''"
    by blast
  show ?thesis by (intro conjI p' d1 d2 d3)
qed

text \<open>C2 on the sample store: the administrator asks to become a student, and to be deleted.\<close>

theorem admin_self_protection_witness:
  "authenticate sample_env sample_store req_admin_demotes_self = Inr sample_admin
   \<and> u_role sample_admin = ''admin''
   \<and> u_computer_number sample_admin = ''2019000001''
   \<and> req_body req_admin_demotes_self ''role'' = JStr ''student''
   \<and> status_code (fst (app (PutUserRole ''2019000001'') sample_env sample_store
        req_admin_demotes_self)) = 400
   \<and> snd (app (PutUserRole ''2019000001'') sample_env sample_store req_admin_demotes_self)
       = sample_store
   \<and> status_code (fst (app (DeleteUser ''2019000001'') sample_env sample_store
        req_admin_demotes_self)) = 400
   \<and> snd (app (DeleteUser ''2019000001'') sample_env sample_store req_admin_demotes_self)
       = sample_store"
proof -
  have a: "authenticate sample_env sample_store req_admin_demotes_self = Inr sample_admin"
    by (simp add: req_admin_demotes_self_def sample_authenticate)
  have r: "u_role sample_admin = ''admin''"
    and n: "u_computer_number sample_admin = ''2019000001''"
    by (simp_all add: sample_admin_def)
  have b: "req_body req_admin_demotes_self ''role'' = JStr ''student''"
    by (simp add: req_admin_demotes_self_def bearer_request_def no_body_def)
  then have b': "req_body req_admin_demotes_self ''role'' \<noteq> JStr ''admin''" by simp
  note t = admin_cannot_demote_or_delete_self [OF a r, unfolded n]
  from t b' have 1: "status_code (fst (app (PutUserRole ''2019000001'') sample_env sample_store
        req_admin_demotes_self)) = 400"
    and 2: "snd (app (PutUserRole ''2019000001'') sample_env sample_store req_admin_demotes_self)
       = sample_store"
    and 3: "status_code (fst (app (DeleteUser ''2019000001'') sample_env sample_store
        req_admin_demotes_self)) = 400"
    and 4: "snd (app (DeleteUser ''2019000001'') sample_env sample_store req_admin_demotes_self)
       = sample_store"
    by blast+
  show ?thesis by (intro conjI a r n b 1 2 3 4)
qed


subsection \<open>Meetings and callers who have no part in them\<close>

lemma found_meeting_number_ok:
  assumes "find_meeting s x = Some m"
  shows "sql_number_ok x"
proof -
  have "id_is (m_meeting_id m) x"
    using assms find_holds [of "\<lambda>m. id_is (m_meeting_id m) x" "meetings s" m]
    by (simp add: find_meeting_def)
  then show ?thesis by (cases x) (simp_all add: id_is_def sql_number_ok_def)
qed

lemma outsider_handlers:
  assumes "db_fault e = None" and "find_meeting s (parseInt i) = Some m"
    and "u_role u \<noteq> ''admin''"
    and "m_organizer_computer_number m \<noteq> u_computer_number u"
    and "m_participant_computer_number m \<noteq> u_computer_number u"
  shows "get_meeting i u e s req = (failure 403 ''Access denied'' [], s)"
    and "js_includes validMeetingStatuses (req_body req ''status'') \<Longrightarrow>
         put_meeting i u e s req
           = (failure 403 ''Only the participant or admin can update meeting status'' [], s)"
    and "delete_meeting i u e s req
           = (failure 403 ''Only the organizer or admin can delete this meeting'' [], s)"
  using assms found_meeting_number_ok [OF assms(2)]
  by (simp_all add: get_meeting_def put_meeting_def delete_meeting_def Let_def)

text \<open>
  C3. Let the caller be authenticated, not an administrator, and neither the organizer
  nor the participant of an existing meeting. Reading the meeting is answered with 403,
  updating its status with a valid status is answered with 403, deleting it is answered
  with 403, and each of the three leaves the store, and so the meeting row, unchanged.
\<close>

theorem outsider_cannot_read_or_change_meeting:
  assumes "authenticate e s req = Inr u"
    and "find_meeting s (parseInt i) = Some m"
    and "u_role u \<noteq> ''admin''"
    and "m_organizer_computer_number m \<noteq> u_computer_number u"
    and "m_participant_computer_number m \<noteq> u_computer_number u"
  shows "status_code (fst (app (GetMeeting i) e s req)) = 403
       \<and> snd (app (GetMeeting i) e s req) = s
       \<and> (js_includes validMeetingStatuses (req_body req ''status'') \<longrightarrow>
            status_code (fst (app (PutMeeting i) e s req)) = 403
            \<and> snd (app (PutMeeting i) e s req) = s)
       \<and> status_code (fst (app (DeleteMeeting i) e s req)) = 403
       \<and> snd (app (DeleteMeeting i) e s req) = s
       \<and> find_meeting s (parseInt i) = Some m"
proof -
  note up = authenticated_db_up [OF assms(1)]
  note h = outsider_handlers [OF up assms(2-5)]
  have g: "app (GetMeeting i) e s req = (failure 403 ''Access denied'' [], s)"
    by (simp add: protected_passes [OF assms(1)] h(1))
  have d: "app (DeleteMeeting i) e s req
      = (failure 403 ''Only the organizer or admin can delete this meeting'' [], s)"
    by (simp add: protected_passes [OF assms(1)] h(3))
  have p: "js_includes validMeetingStatuses (req_body req ''status'') \<longrightarrow>
            status_code (fst (app (PutMeeting i) e s req)) = 403
            \<and> snd (app (PutMeeting i) e s req) = s"
    by (simp add: protected_passes [OF assms(1)] h(2))
  show ?thesis
    unfolding g d using p assms(2) by simp
qed

text \<open>
  C3 on the sample store: the second student has no part in the meeting of the first
  student with the lecturer.
\<close>

theorem outsider_witness:
  "authenticate sample_env sample_store req_outsider_confirms = Inr sample_outsider
   \<and> find_meeting sample_store (parseInt ''1'') = Some sample_meeting
   \<and> u_role sample_outsider \<noteq> ''admin''
   \<and> m_organizer_computer_number sample_meeting \<noteq> u_computer_number sample_outsider
   \<and> m_participant_computer_number sample_meeting \<noteq> u_computer_number sample_outsider
   \<and> js_includes validMeetingStatuses (req_body req_outsider_confirms ''status'')
   \<and> status_code (fst (app (GetMeeting ''1'') sample_env sample_store req_outsider_confirms)) = 403
   \<and> status_code (fst (app (PutMeeting ''1'') sample_env sample_store req_outsider_confirms)) = 403
   \<and> snd (app (PutMeeting ''1'') sample_env sample_store req_outsider_confirms) = sample_store
   \<and> status_code (fst (app (DeleteMeeting ''1'') sample_env sample_store req_outsider_confirms))
       = 403
   \<and> snd (app (DeleteMeeting ''1'') sample_env sample_store req_outsider_confirms) = sample_store"
proof -
  have a: "authenticate sample_env sample_store req_outsider_confirms = Inr sample_outsider"
    by (simp add: req_outsider_confirms_def sample_authenticate)
  have p: "parseInt ''1'' = Fin 1"
    by (simp add: parseInt_def strip_sign_def is_space_def dec_digit_def)
  have b: "find_meeting sample_store (parseInt ''1'') = Some sample_meeting"
    by (simp add: p find_meeting_def sample_store_def sample_meeting_def id_is_def)
  have c: "u_role sample_outsider \<noteq> ''admin''"
    and d: "m_organizer_computer_number sample_meeting \<noteq> u_computer_number sample_outsider"
    and f: "m_participant_computer_number sample_meeting \<noteq> u_computer_number sample_outsider"
    by (simp_all add: sample_outsider_def sample_meeting_def)
  have g: "js_includes validMeetingStatuses (req_body req_outsider_confirms ''status'')"
    by (simp add: req_outsider_confirms_def bearer_request_def no_body_def js_includes_def
        validMeetingStatuses_def)
  note t = outsider_cannot_read_or_change_meeting [OF a b c d f]
  from t g have 1: "status_code (fst (app (GetMeeting ''1'') sample_env sample_store
      req_outsider_confirms)) = 403"
    and 2: "status_code (fst (app (PutMeeting ''1'') sample_env sample_store
      req_outsider_confirms)) = 403"
    and 3: "snd (app (PutMeeting ''1'') sample_env sample_store req_outsider_confirms)
      = sample_store"
    and 4: "status_code (fst (app (DeleteMeeting ''1'') sample_env sample_store
      req_outsider_confirms)) = 403"
    and 5: "snd (app (DeleteMeeting ''1'') sample_env sample_store req_outsider_confirms)
      = sample_store"
    by blast+
  show ?thesis by (intro conjI a b c d f g 1 2 3 4 5)
qed


subsection \<open>Login and rejected tokens\<close>

lemma login_succeeds:
  assumes "find_user s (req_body req ''computer_number'') = Some u"
    and "truthy (req_body req ''computer_number'')"
    and "req_body req ''password'' = JStr pw" and "pw \<noteq> []"
    and "bcrypt_compare e pw (u_password_hash u)" and "db_fault e = None"
    and "jwt_sign e
           \<lparr>t_computer_number = u_computer_number u, t_role = u_role u, t_email = u_email u\<rparr>
           (expires_in e) = Some token"
  shows "status_code (fst (login e s req)) = 200"
    and "get_member (payload (fst (login e s req))) ''success'' = JBool True"
    and "token_of (login e s req) = JStr token"
    and "snd (login e s req) = s"
  using assms by (simp_all add: login_def Let_def token_of_def)

text \<open>When \<^verbatim>\<open>jwt.sign\<close> throws, the same request is answered with 500.\<close>

lemma login_fails_when_signing_throws:
  assumes "find_user s (req_body req ''computer_number'') = Some u"
    and "truthy (req_body req ''computer_number'')"
    and "req_body req ''password'' = JStr pw" and "pw \<noteq> []"
    and "bcrypt_compare e pw (u_password_hash u)" and "db_fault e = None"
    and "jwt_sign e
           \<lparr>t_computer_number = u_computer_number u, t_role = u_role u, t_email = u_email u\<rparr>
           (expires_in e) = None"
  shows "status_code (fst (login e s req)) = 500" and "snd (login e s req) = s"
  using assms by (simp_all add: login_def Let_def)

lemma rejected_token_ends_request:
  assumes "req_authorization req = Some h"
    and "jwt_verify e (bearer_token h) = TokenExpiredError
         \<or> jwt_verify e (bearer_token h) = JsonWebTokenError"
  shows "\<exists>r. authenticate e s req = Inl r \<and> status_code r = 401"
  using assms by (auto simp add: authenticate_def)

lemma protected_rejects:
  assumes "authenticate e s req = Inl r"
  shows "protected roles h e s req = (r, s)"
  using assms by (simp add: protected_def)

lemma protected_route:
  "is_protected r \<Longrightarrow> \<exists>roles h. app r = protected roles h"
  by (cases r) auto

text \<open>
  C5. A login request that carries the computer number of a stored user and a password
  that \<^verbatim>\<open>bcrypt.compare\<close> accepts against that user's hash is answered with 200 and
  success, and \<^verbatim>\<open>data.token\<close> is the token that \<^verbatim>\<open>jwt.sign\<close> returns for the
  computer number, role and email of that user; this is so when the database is
  reachable and \<^verbatim>\<open>jwt.sign\<close> returns a token, which it does under a configured secret
  and lifetime. A request whose bearer token the library reports as expired, or rejects
  with \<^verbatim>\<open>JsonWebTokenError\<close> as it does for a bad signature, is answered with 401 on
  every route that runs \<^verbatim>\<open>authenticate\<close>, and indeed by the middleware before any
  handler and any role check; the store is unchanged.
\<close>

theorem login_issues_token_and_bad_tokens_are_rejected:
  "(find_user s (req_body req ''computer_number'') = Some u
      \<and> truthy (req_body req ''computer_number'')
      \<and> req_body req ''password'' = JStr pw \<and> pw \<noteq> []
      \<and> bcrypt_compare e pw (u_password_hash u) \<and> db_fault e = None
      \<and> jwt_sign e
           \<lparr>t_computer_number = u_computer_number u, t_role = u_role u, t_email = u_email u\<rparr>
           (expires_in e) = Some token \<longrightarrow>
    status_code (fst (app PostLogin e s req)) = 200
    \<and> get_member (payload (fst (app PostLogin e s req))) ''success'' = JBool True
    \<and> token_of (app PostLogin e s req) = JStr token)
   \<and> (req_authorization req = Some h
       \<and> (jwt_verify e (bearer_token h) = TokenExpiredError
          \<or> jwt_verify e (bearer_token h) = JsonWebTokenError) \<longrightarrow>
      (\<forall>r. is_protected r \<longrightarrow>
         status_code (fst (app r e s req)) = 401 \<and> snd (app r e s req) = s)
      \<and> (\<forall>roles handler.
           status_code (fst (protected roles handler e s req)) = 401
           \<and> snd (protected roles handler e s req) = s))"
proof (intro conjI impI)
  assume c: "find_user s (req_body req ''computer_number'') = Some u
      \<and> truthy (req_body req ''computer_number'')
      \<and> req_body req ''password'' = JStr pw \<and> pw \<noteq> []
      \<and> bcrypt_compare e pw (u_password_hash u) \<and> db_fault e = None
      \<and> jwt_sign e
           \<lparr>t_computer_number = u_computer_number u, t_role = u_role u, t_email = u_email u\<rparr>
           (expires_in e) = Some token"
  then have h: "find_user s (req_body req ''computer_number'') = Some u"
    "truthy (req_body req ''computer_number'')"
    "req_body req ''password'' = JStr pw" "pw \<noteq> []"
    "bcrypt_compare e pw (u_password_hash u)" "db_fault e = None"
    "jwt_sign e
       \<lparr>t_computer_number = u_computer_number u, t_role = u_role u, t_email = u_email u\<rparr>
       (expires_in e) = Some token"
    by blast+
  show "status_code (fst (app PostLogin e s req)) = 200"
    using login_succeeds(1) [OF h] by simp
  show "get_member (payload (fst (app PostLogin e s req))) ''success'' = JBool True"
    using login_succeeds(2) [OF h] by simp
  show "token_of (app PostLogin e s req) = JStr token"
    using login_succeeds(3) [OF h] by simp
next
  assume t: "req_authorization req = Some h
       \<and> (jwt_verify e (bearer_token h) = TokenExpiredError
          \<or> jwt_verify e (bearer_token h) = JsonWebTokenError)"
  then obtain r where r: "authenticate e s req = Inl r" "status_code r = 401"
    using rejected_token_ends_request [of req h e s] by blast
  have any: "status_code (fst (protected roles handler e s req)) = 401
           \<and> snd (protected roles handler e s req) = s" for roles handler
    using r by (simp add: protected_rejects)
  then show "\<forall>roles handler.
           status_code (fst (protected roles handler e s req)) = 401
           \<and> snd (protected roles handler e s req) = s"
    by blast
  show "\<forall>r. is_protected r \<longrightarrow>
         status_code (fst (app r e s req)) = 401 \<and> snd (app r e s req) = s"
  proof (intro allI impI)
    fix rt assume "is_protected rt"
    then obtain roles handler where "app rt = protected roles handler"
      using protected_route by blast
    then show "status_code (fst (app rt e s req)) = 401 \<and> snd (app rt e s req) = s"
      using any by simp
  qed
qed

text \<open>
  C5 on the sample deployment: the administrator logs in and receives the token signed
  for 24 hours; an expired token and a token with a changed character are refused.
\<close>

theorem login_and_token_witness:
  "find_user sample_store (req_body req_login_admin ''computer_number'') = Some sample_admin
   \<and> req_body req_login_admin ''password'' = JStr ''admin-pw''
   \<and> bcrypt_compare sample_env ''admin-pw'' (u_password_hash sample_admin)
   \<and> jwt_sign sample_env (sample_claims sample_admin) (expires_in sample_env)
       = Some ''signed:2019000001''
   \<and> status_code (fst (app PostLogin sample_env sample_store req_login_admin)) = 200
   \<and> token_of (app PostLogin sample_env sample_store req_login_admin)
       = JStr ''signed:2019000001''
   \<and> jwt_verify sample_env ''signed:old'' = TokenExpiredError
   \<and> status_code (fst (app GetMeetings sample_env sample_store req_expired_token)) = 401
   \<and> status_code (fst (app (DeleteUser ''2019000002'') sample_env sample_store
        req_expired_token)) = 401
   \<and> jwt_verify sample_env ''signed:2019000001x'' = JsonWebTokenError
   \<and> status_code (fst (app (PutMeeting ''1'') sample_env sample_store req_tampered_token)) = 401
   \<and> snd (app (PutMeeting ''1'') sample_env sample_store req_tampered_token) = sample_store"
proof -
  have a: "find_user sample_store (req_body req_login_admin ''computer_number'')
      = Some sample_admin"
    by (simp add: req_login_admin_def anonymous_request_def no_body_def find_user_def
        sample_store_def sample_admin_def)
  have b: "truthy (req_body req_login_admin ''computer_number'')"
    and c: "req_body req_login_admin ''password'' = JStr ''admin-pw''"
    by (simp_all add: req_login_admin_def anonymous_request_def no_body_def)
  have d: "''admin-pw'' \<noteq> []" by simp
  have f: "bcrypt_compare sample_env ''admin-pw'' (u_password_hash sample_admin)"
    by (simp add: sample_env_def sample_admin_def)
  have g: "db_fault sample_env = None" by (simp add: sample_env_def)
  have k: "\<lparr>t_computer_number = u_computer_number sample_admin, t_role = u_role sample_admin,
            t_email = u_email sample_admin\<rparr> = sample_claims sample_admin"
    by (simp add: sample_claims_def)
  have sg: "jwt_sign sample_env (sample_claims sample_admin) (expires_in sample_env)
      = Some ''signed:2019000001''"
    by (simp add: expires_in_def sample_env_def sample_claims_def sample_admin_def)
  have he: "req_authorization req_expired_token = Some ''Bearer signed:old''"
    and ht: "req_authorization req_tampered_token = Some ''Bearer signed:2019000001x''"
    by (simp_all add: req_expired_token_def req_tampered_token_def bearer_request_def)
  have te: "bearer_token ''Bearer signed:old'' = ''signed:old''"
    and tt: "bearer_token ''Bearer signed:2019000001x'' = ''signed:2019000001x''"
    by (simp_all add: bearer_token_def)
  have ve: "jwt_verify sample_env ''signed:old'' = TokenExpiredError"
    and vt: "jwt_verify sample_env ''signed:2019000001x'' = JsonWebTokenError"
    by (simp_all add: sample_env_def)
  have pe: "is_protected GetMeetings" "is_protected (DeleteUser ''2019000002'')"
    "is_protected (PutMeeting ''1'')" by simp_all
  note login = login_issues_token_and_bad_tokens_are_rejected
    [where s = sample_store and req = req_login_admin and u = sample_admin
       and pw = "''admin-pw''" and e = sample_env and token = "''signed:2019000001''",
     unfolded k]
  note expired = login_issues_token_and_bad_tokens_are_rejected
    [where s = sample_store and e = sample_env and req = req_expired_token
       and h = "''Bearer signed:old''", unfolded te]
  note tampered = login_issues_token_and_bad_tokens_are_rejected
    [where s = sample_store and e = sample_env and req = req_tampered_token
       and h = "''Bearer signed:2019000001x''", unfolded tt]
  from login a b c d f g sg
  have 1: "status_code (fst (app PostLogin sample_env sample_store req_login_admin)) = 200"
    and 2: "token_of (app PostLogin sample_env sample_store req_login_admin)
       = JStr ''signed:2019000001''"
    by blast+
  from expired he ve pe
  have 3: "status_code (fst (app GetMeetings sample_env sample_store req_expired_token)) = 401"
    and 4: "status_code (fst (app (DeleteUser ''2019000002'') sample_env sample_store
        req_expired_token)) = 401"
    by blast+
  from tampered ht vt pe
  have 5: "status_code (fst (app (PutMeeting ''1'') sample_env sample_store
      req_tampered_token)) = 401"
    and 6: "snd (app (PutMeeting ''1'') sample_env sample_store req_tampered_token)
      = sample_store"
    by blast+
  show ?thesis by (intro conjI a c f sg 1 2 ve 3 4 vt 5 6)
qed

subsection \<open>The scheduled time of a new meeting\<close>

text \<open>
  The guard of \<^verbatim>\<open>POST /meetings\<close> refuses a scheduled time that is missing, or that
  is a date not after the clock.
\<close>

lemma date_throws_no_date: "date_throws v \<Longrightarrow> js_date e v = None"
  by (cases v) (simp_all add: date_throws_def js_date_def)

lemma past_meeting_refused:
  assumes "\<not> truthy (req_body req ''scheduled_at'')
           \<or> (\<exists>t. js_date e (req_body req ''scheduled_at'') = Some t \<and> t \<le> now e)"
  shows "status_code (fst (post_meeting u e s req)) = 400 \<and> snd (post_meeting u e s req) = s"
  using assms date_throws_no_date [of "req_body req ''scheduled_at''" e]
  by (auto simp add: post_meeting_def Let_def not_after_now_def)

text \<open>
  A scheduled time that is not a date at all, and whose conversion does not throw,
  passes the guard, because the comparison of an invalid date with the clock is false:
  the meeting is created with it.
\<close>

lemma unparsable_meeting_time_is_stored:
  assumes "authenticate e s req = Inr u"
    and "truthy (req_body req ''title'')"
    and "find_user s (req_body req ''participant_computer_number'') = Some p"
    and "truthy (req_body req ''participant_computer_number'')"
    and "truthy (req_body req ''scheduled_at'')"
    and "js_date e (req_body req ''scheduled_at'') = None"
    and "\<not> date_throws (req_body req ''scheduled_at'')"
  shows "status_code (fst (app PostMeeting e s req)) = 201
    \<and> map m_scheduled_at (meetings (snd (app PostMeeting e s req)))
        = map m_scheduled_at (meetings s) @ [req_body req ''scheduled_at'']"
  using assms authenticated_db_up [OF assms(1)]
  by (simp add: protected_passes [OF assms(1)] post_meeting_def Let_def not_after_now_def)

text \<open>
  C7 fails on the code. On the sample deployment the first student books a meeting with
  the lecturer for \<^verbatim>\<open>tomorrow\<close>, which is no date; the answer is 201 and the meeting
  is stored, although its scheduled time is not in the future.
\<close>

theorem unparsable_meeting_time_passes_the_guard:
  "req_body req_meeting_tomorrow ''scheduled_at'' = JStr ''tomorrow''
   \<and> js_date sample_env (JStr ''tomorrow'') = None
   \<and> status_code (fst (app PostMeeting sample_env sample_store req_meeting_tomorrow)) = 201
   \<and> map m_scheduled_at (meetings (snd (app PostMeeting sample_env sample_store
        req_meeting_tomorrow)))
       = [JStr ''2030-01-01T10:00:00.000Z'', JStr ''tomorrow'']"
proof -
  have a: "authenticate sample_env sample_store req_meeting_tomorrow = Inr sample_student"
    by (simp add: req_meeting_tomorrow_def sample_authenticate)
  have b: "req_body req_meeting_tomorrow ''scheduled_at'' = JStr ''tomorrow''"
    "req_body req_meeting_tomorrow ''title'' = JStr ''Review''"
    "req_body req_meeting_tomorrow ''participant_computer_number'' = JStr ''2019000003''"
    by (simp_all add: req_meeting_tomorrow_def bearer_request_def no_body_def)
  have c: "js_date sample_env (JStr ''tomorrow'') = None"
    by (simp add: js_date_def sample_env_def)
  have d: "find_user sample_store (JStr ''2019000003'') = Some sample_lecturer"
    by (simp add: find_user_def sample_store_def sample_admin_def sample_student_def
        sample_lecturer_def)
  have m: "map m_scheduled_at (meetings sample_store) = [JStr ''2030-01-01T10:00:00.000Z'']"
    by (simp add: sample_store_def sample_meeting_def)
  have "status_code (fst (app PostMeeting sample_env sample_store req_meeting_tomorrow)) = 201
    \<and> map m_scheduled_at (meetings (snd (app PostMeeting sample_env sample_store
          req_meeting_tomorrow)))
        = map m_scheduled_at (meetings sample_store)
            @ [req_body req_meeting_tomorrow ''scheduled_at'']"
    by (rule unparsable_meeting_time_is_stored [OF a, of sample_lecturer])
      (simp_all add: b c d date_throws_def)
  then show ?thesis unfolding m b using b(1) c by simp
qed

text \<open>The same request with a date of the year 2020 is refused.\<close>

lemma past_meeting_on_sample:
  "app PostMeeting sample_env sample_store req_meeting_past
     = (failure 400 ''Meeting time must be in the future'' [], sample_store)"
proof -
  have a: "authenticate sample_env sample_store req_meeting_past = Inr sample_student"
    by (simp add: req_meeting_past_def sample_authenticate)
  have b: "req_body req_meeting_past = no_body(''title'' := JStr ''Review'',
                ''participant_computer_number'' := JStr ''2019000003'',
                ''scheduled_at'' := JStr ''2020-01-01T10:00:00.000Z'')"
    by (simp add: req_meeting_past_def bearer_request_def)
  have eq: "app PostMeeting sample_env sample_store req_meeting_past
      = post_meeting sample_student sample_env sample_store req_meeting_past"
    by (simp add: protected_passes [OF a])
  show ?thesis
    unfolding eq
    by (simp add: post_meeting_def Let_def not_after_now_def b js_date_def sample_env_def
        no_body_def date_throws_def)
qed

end
